theory Spec2Isabelle
  imports Main
begin

section \<open>Strings of the enrichment route\<close>

text \<open>
  The program is \<^verbatim>\<open>src/app/api/enrich/route.ts\<close>. A JavaScript string is a sequence of
  UTF-16 code units, a code unit is a natural number here. \<open>u\<close> turns an ASCII literal
  of the source into its code units; the three non-ASCII characters of the source are
  named.
\<close>

type_synonym ustring = "nat list"

definition u :: "string \<Rightarrow> ustring" where
  "u s = map of_char s"

definition rupee :: nat where
  "rupee = 8377"

definition bullet :: nat where
  "bullet = 8226"

definition tick :: nat where
  "tick = 10003"

definition nl :: nat where
  "nl = 10"

text \<open>
  \<^verbatim>\<open>\s\<close> of a regular expression and the characters \<^verbatim>\<open>trim()\<close> strips are the same set:
  the white space and the line terminators of ECMAScript.
\<close>

definition isSpace :: "nat \<Rightarrow> bool" where
  "isSpace c \<longleftrightarrow>
     (9 \<le> c \<and> c \<le> 13) \<or> c = 32 \<or> c = 160 \<or> c = 5760 \<or> (8192 \<le> c \<and> c \<le> 8202) \<or>
     c = 8232 \<or> c = 8233 \<or> c = 8239 \<or> c = 8287 \<or> c = 12288 \<or> c = 65279"

text \<open>\<^verbatim>\<open>\d\<close> and \<^verbatim>\<open>\w\<close> without the unicode flag are ASCII classes.\<close>

definition isDigit :: "nat \<Rightarrow> bool" where
  "isDigit c \<longleftrightarrow> 48 \<le> c \<and> c \<le> 57"

definition isWordChar :: "nat \<Rightarrow> bool" where
  "isWordChar c \<longleftrightarrow> isDigit c \<or> (65 \<le> c \<and> c \<le> 90) \<or> (97 \<le> c \<and> c \<le> 122) \<or> c = 95"

definition trim :: "ustring \<Rightarrow> ustring" where
  "trim s = rev (dropWhile isSpace (rev (dropWhile isSpace s)))"

text \<open>\<^verbatim>\<open>s.split('\n')\<close>: always at least one piece.\<close>

fun splitLines :: "ustring \<Rightarrow> ustring list" where
  "splitLines [] = [[]]"
| "splitLines (c # cs) =
     (if c = nl then [] # splitLines cs
      else (case splitLines cs of [] \<Rightarrow> [[c]] | l # ls \<Rightarrow> (c # l) # ls))"

text \<open>
  \<^verbatim>\<open>s.split(/\s+/)\<close>: every maximal run of white space separates two pieces, so a string
  that starts or ends with white space has an empty first or last piece.
\<close>

function splitSpaces :: "ustring \<Rightarrow> ustring list" where
  "splitSpaces [] = [[]]"
| "splitSpaces (c # cs) =
     (if isSpace c then [] # splitSpaces (dropWhile isSpace cs)
      else (case splitSpaces cs of [] \<Rightarrow> [[c]] | w # ws \<Rightarrow> (c # w) # ws))"
  by pat_completeness auto
termination
  by (relation "measure length")
    (auto simp: less_Suc_eq_le intro: le_trans [OF length_dropWhile_le])

text \<open>\<^verbatim>\<open>s.replace(/\s+/g, ' ')\<close>: every maximal run of white space becomes one space.\<close>

function collapseSpaces :: "ustring \<Rightarrow> ustring" where
  "collapseSpaces [] = []"
| "collapseSpaces (c # cs) =
     (if isSpace c then 32 # collapseSpaces (dropWhile isSpace cs)
      else c # collapseSpaces cs)"
  by pat_completeness auto
termination
  by (relation "measure length")
    (auto simp: less_Suc_eq_le intro: le_trans [OF length_dropWhile_le])

text \<open>\<^verbatim>\<open>xs.join(sep)\<close>.\<close>

fun joinWith :: "ustring \<Rightarrow> ustring list \<Rightarrow> ustring" where
  "joinWith sep [] = []"
| "joinWith sep [x] = x"
| "joinWith sep (x # y # ys) = x @ sep @ joinWith sep (y # ys)"

text \<open>\<^verbatim>\<open>s.includes(p)\<close>.\<close>

fun startsWith :: "ustring \<Rightarrow> ustring \<Rightarrow> bool" where
  "startsWith s [] = True"
| "startsWith [] (p # ps) = False"
| "startsWith (c # cs) (p # ps) = (c = p \<and> startsWith cs ps)"

fun strIncludes :: "ustring \<Rightarrow> ustring \<Rightarrow> bool" where
  "strIncludes [] p = startsWith [] p"
| "strIncludes (c # cs) p = (startsWith (c # cs) p \<or> strIncludes cs p)"

text \<open>
  \<^verbatim>\<open>s.toLowerCase()\<close>. The ASCII capitals, and the two code units beyond ASCII whose lower
  case holds an ASCII letter (U+0130 and the Kelvin sign U+212A), are mapped as Unicode
  maps them. Every other code unit is kept: Unicode maps some of them to other
  non-ASCII code units, which no search for an ASCII word can tell apart, and
  \<^verbatim>\<open>toLowerCase\<close> is only used by the source to search the ASCII vocabularies.
\<close>

definition lowerUnit :: "nat \<Rightarrow> ustring" where
  "lowerUnit c =
     (if 65 \<le> c \<and> c \<le> 90 then [c + 32]
      else if c = 304 then [105, 775]
      else if c = 8490 then [107]
      else [c])"

definition toLowerCase :: "ustring \<Rightarrow> ustring" where
  "toLowerCase s = concat (map lowerUnit s)"

text \<open>
  \<^verbatim>\<open>s.toUpperCase()\<close>, which the source applies to a matched size token only: ASCII
  letters and digits.
\<close>

definition upperUnit :: "nat \<Rightarrow> nat" where
  "upperUnit c = (if 97 \<le> c \<and> c \<le> 122 then c - 32 else c)"

definition toUpperCase :: "ustring \<Rightarrow> ustring" where
  "toUpperCase s = map upperUnit s"

section \<open>Rows and JavaScript truthiness\<close>

text \<open>
  \<^verbatim>\<open>interface CatalogRow { [key: string]: string }\<close>: a row maps keys to strings, and a
  missing key reads as \<^verbatim>\<open>undefined\<close> (\<open>None\<close>). A value is truthy when it is a non-empty
  string; \<open>orElse v d\<close> is \<^verbatim>\<open>v || d\<close>.
\<close>

type_synonym row = "ustring \<rightharpoonup> ustring"

definition truthy :: "ustring option \<Rightarrow> bool" where
  "truthy v = (case v of None \<Rightarrow> False | Some s \<Rightarrow> s \<noteq> [])"

definition orElse :: "ustring option \<Rightarrow> ustring \<Rightarrow> ustring" where
  "orElse v d = (case v of None \<Rightarrow> d | Some s \<Rightarrow> if s \<noteq> [] then s else d)"

text \<open>\<^verbatim>\<open>xs[i]\<close>: \<^verbatim>\<open>undefined\<close> out of range.\<close>

definition elemAt :: "'a list \<Rightarrow> nat \<Rightarrow> 'a option" where
  "elemAt xs i = (if i < length xs then Some (xs ! i) else None)"

section \<open>Generators\<close>

definition generateTitle :: "ustring \<Rightarrow> row \<Rightarrow> ustring" where
  "generateTitle rawData row =
     (let title = orElse (row (u ''title'')) (orElse (row (u ''name''))
                    (orElse (row (u ''product_name'')) []))
      in if title \<noteq> [] then title
         else let words = joinWith (u '' '') (take 10 (splitSpaces rawData))
              in if words \<noteq> [] then words else u ''Product'')"

definition generateDescription :: "ustring \<Rightarrow> row \<Rightarrow> ustring" where
  "generateDescription rawData row =
     (let desc = orElse (row (u ''description'')) (orElse (row (u ''desc'')) [])
      in if desc \<noteq> [] then desc
         else let brand = orElse (row (u ''brand'')) (u ''Quality'');
                  category = orElse (row (u ''category'')) (u ''product'');
                  color = orElse (row (u ''color'')) [];
                  material = orElse (row (u ''material'')) []
              in u ''Premium '' @ brand @ u '' '' @ category
                 @ (if color \<noteq> [] then u '' in '' @ color @ u '' color'' else [])
                 @ (if material \<noteq> [] then u '' made with '' @ material else [])
                 @ u ''. '' @ take 200 rawData)"

text \<open>\<^verbatim>\<open>t.trim().replace(/\s+/g, ' ')\<close>.\<close>

definition tidy :: "ustring \<Rightarrow> ustring" where
  "tidy t = collapseSpaces (trim t)"

definition generatePlatformTitle :: "ustring \<Rightarrow> row \<Rightarrow> ustring \<Rightarrow> ustring" where
  "generatePlatformTitle platform row rawData =
     (let baseTitle = orElse (row (u ''product_title'')) (orElse (row (u ''title'')) (u ''Product''));
          brand = orElse (row (u ''brand'')) [];
          color = orElse (row (u ''color'')) [];
          size = orElse (row (u ''size'')) []
      in if platform = u ''amazon'' then
           tidy (brand @ u '' '' @ baseTitle @ u '' '' @ color @ u '' '' @ size)
         else if platform = u ''flipkart'' then
           tidy (baseTitle @ u '' ('' @ brand @ u '') - '' @ color)
         else if platform = u ''meesho'' then
           tidy (baseTitle @ u '' '' @ color @ u '' '' @ size)
         else if platform = u ''myntra'' then
           tidy (brand @ u '' '' @ color @ u '' '' @ baseTitle)
         else baseTitle)"

definition generatePlatformDescription :: "ustring \<Rightarrow> row \<Rightarrow> ustring \<Rightarrow> ustring" where
  "generatePlatformDescription platform row rawData =
     (let baseDesc = orElse (row (u ''description'')) [];
          brand = orElse (row (u ''brand'')) [];
          material = orElse (row (u ''material'')) []
      in if platform = u ''amazon'' then
           baseDesc @ [nl, nl] @ u ''Key Features:'' @ [nl, bullet] @ u '' Premium Quality''
           @ [nl, bullet] @ u '' '' @ brand @ u '' Brand''
           @ [nl, bullet] @ u '' '' @ material @ u '' Material''
           @ [nl, bullet] @ u '' Fast Delivery Available''
         else if platform = u ''flipkart'' then
           baseDesc @ [nl, nl] @ u ''Specifications:'' @ [nl] @ u ''- Brand: '' @ brand
           @ [nl] @ u ''- Material: '' @ material @ [nl] @ u ''- Quality Assured''
         else if platform = u ''meesho'' then
           baseDesc @ [nl, nl, tick] @ u '' Best Price'' @ [nl, tick] @ u '' Quality Product''
           @ [nl, tick] @ u '' Fast Shipping''
         else if platform = u ''myntra'' then
           baseDesc @ [nl, nl] @ u ''Product Details:'' @ [nl, bullet] @ u '' Brand: '' @ brand
           @ [nl, bullet] @ u '' Material: '' @ material
           @ [nl, bullet] @ u '' Style & Comfort Combined''
         else baseDesc)"

definition generateKeywords :: "ustring \<Rightarrow> row \<Rightarrow> ustring \<Rightarrow> ustring" where
  "generateKeywords platform row rawData =
     (let brand = orElse (row (u ''brand'')) [];
          category = orElse (row (u ''category'')) [];
          color = orElse (row (u ''color'')) [];
          material = orElse (row (u ''material'')) [];
          keywords = filter (\<lambda>k. k \<noteq> [])
            [brand, category, color, material,
             u ''quality'', u ''premium'', u ''best'', u ''latest'', u ''trending'']
      in joinWith (u '', '') keywords)"

section \<open>Extractors\<close>

subsection \<open>Price\<close>

text \<open>
  \<^verbatim>\<open>rawData.match(/R?\s*(\d+(?:,\d+)*(?:\.\d{2})?)/)\<close>, where \<^verbatim>\<open>R\<close> stands for the
  rupee sign U+20B9 of the source. The group is matched greedily and nothing after it is required, so
  the first try of every quantifier succeeds: all the digits, then every comma that a
  digit follows with its digits, then a dot with two digits when they are there.
\<close>

function commaGroups :: "ustring \<Rightarrow> ustring" where
  "commaGroups (c # d # cs) =
     (if c = 44 \<and> isDigit d
      then c # d # takeWhile isDigit cs @ commaGroups (dropWhile isDigit cs)
      else [])"
| "commaGroups [c] = []"
| "commaGroups [] = []"
  by pat_completeness auto
termination
  by (relation "measure length")
    (auto simp: less_Suc_eq_le intro: le_trans [OF length_dropWhile_le])

definition fraction :: "ustring \<Rightarrow> ustring" where
  "fraction s =
     (case s of
        c # d1 # d2 # _ \<Rightarrow> if c = 46 \<and> isDigit d1 \<and> isDigit d2 then [c, d1, d2] else []
      | _ \<Rightarrow> [])"

definition priceGroup :: "ustring \<Rightarrow> ustring" where
  "priceGroup s =
     (let digits = takeWhile isDigit s;
          rest = dropWhile isDigit s;
          groups = commaGroups rest
      in digits @ groups @ fraction (drop (length groups) rest))"

text \<open>
  The expression tried at the start of \<open>s\<close>: the optional sign, the white space, then
  the group, which needs a digit. Giving back the sign or some of the white space
  cannot help, since neither is a digit.
\<close>

definition priceAt :: "ustring \<Rightarrow> ustring option" where
  "priceAt s =
     (let afterSign = (case s of [] \<Rightarrow> [] | c # cs \<Rightarrow> if c = rupee then cs else c # cs);
          afterSpace = dropWhile isSpace afterSign
      in case afterSpace of
           [] \<Rightarrow> None
         | d # _ \<Rightarrow> if isDigit d then Some (priceGroup afterSpace) else None)"

text \<open>\<^verbatim>\<open>match\<close> takes the leftmost start at which the expression matches; \<open>priceMatch\<close> is
  \<^verbatim>\<open>priceMatch[1]\<close>, \<open>None\<close> when there is no match.\<close>

fun priceMatch :: "ustring \<Rightarrow> ustring option" where
  "priceMatch [] = priceAt []"
| "priceMatch (c # cs) =
     (case priceAt (c # cs) of Some g \<Rightarrow> Some g | None \<Rightarrow> priceMatch cs)"

text \<open>\<^verbatim>\<open>g.replace(',', '')\<close>: a string pattern replaces its first occurrence only.\<close>

definition replaceComma :: "ustring \<Rightarrow> ustring" where
  "replaceComma g = remove1 44 g"

definition extractPrice :: "ustring \<Rightarrow> ustring" where
  "extractPrice rawData =
     (case priceMatch rawData of Some g \<Rightarrow> replaceComma g | None \<Rightarrow> [])"

subsection \<open>Vocabularies\<close>

text \<open>The \<^verbatim>\<open>for\<close> loop shared by the four vocabulary extractors: the first word of the
  list whose lower case occurs in the lower-cased raw data.\<close>

fun firstIncluded :: "ustring \<Rightarrow> ustring list \<Rightarrow> ustring option" where
  "firstIncluded lowerData [] = None"
| "firstIncluded lowerData (w # ws) =
     (if strIncludes lowerData (toLowerCase w) then Some w else firstIncluded lowerData ws)"

definition commonBrands :: "ustring list" where
  "commonBrands =
     [u ''Nike'', u ''Adidas'', u ''Puma'', u ''Reebok'', u ''Levi'' @ [39] @ u ''s'', u ''Zara'',
      u ''H&M'', u ''Generic'']"

definition extractBrand :: "ustring \<Rightarrow> row \<Rightarrow> ustring" where
  "extractBrand rawData row =
     (if truthy (row (u ''brand'')) then orElse (row (u ''brand'')) []
      else case firstIncluded (toLowerCase rawData) commonBrands of
             Some brand \<Rightarrow> brand
           | None \<Rightarrow> u ''Generic'')"

definition categories :: "ustring list" where
  "categories =
     [u ''Shirt'', u ''T-Shirt'', u ''Jeans'', u ''Shoes'', u ''Dress'', u ''Jacket'',
      u ''Accessories'']"

definition extractCategory :: "ustring \<Rightarrow> row \<Rightarrow> ustring" where
  "extractCategory rawData row =
     (if truthy (row (u ''category'')) then orElse (row (u ''category'')) []
      else case firstIncluded (toLowerCase rawData) categories of
             Some cat \<Rightarrow> cat
           | None \<Rightarrow> u ''General'')"

definition colors :: "ustring list" where
  "colors =
     [u ''Black'', u ''White'', u ''Red'', u ''Blue'', u ''Green'', u ''Yellow'', u ''Pink'',
      u ''Grey'', u ''Brown'', u ''Navy'']"

definition extractColor :: "ustring \<Rightarrow> row \<Rightarrow> ustring" where
  "extractColor rawData row =
     (if truthy (row (u ''color'')) then orElse (row (u ''color'')) []
      else case firstIncluded (toLowerCase rawData) colors of
             Some color \<Rightarrow> color
           | None \<Rightarrow> u ''Multi'')"

definition materials :: "ustring list" where
  "materials =
     [u ''Cotton'', u ''Polyester'', u ''Silk'', u ''Wool'', u ''Denim'', u ''Leather'',
      u ''Synthetic'']"

definition extractMaterial :: "ustring \<Rightarrow> row \<Rightarrow> ustring" where
  "extractMaterial rawData row =
     (if truthy (row (u ''material'')) then orElse (row (u ''material'')) []
      else case firstIncluded (toLowerCase rawData) materials of
             Some material \<Rightarrow> material
           | None \<Rightarrow> u ''Cotton'')"

subsection \<open>Size\<close>

text \<open>
  \<^verbatim>\<open>rawData.match(/\b(XS|S|M|L|XL|XXL|XXXL|28|30|32|34|36|38|40|42)\b/i)\<close>. With the
  \<^verbatim>\<open>i\<close> flag and no unicode flag a code unit matches an ASCII letter of the pattern
  exactly when it is that letter in either case. At a start position the alternatives
  are tried in their order, and one counts only when a word boundary follows it.
\<close>

definition sizeTokens :: "ustring list" where
  "sizeTokens =
     [u ''XS'', u ''S'', u ''M'', u ''L'', u ''XL'', u ''XXL'', u ''XXXL'', u ''28'', u ''30'',
      u ''32'', u ''34'', u ''36'', u ''38'', u ''40'', u ''42'']"

definition wordBoundary :: "nat option \<Rightarrow> nat option \<Rightarrow> bool" where
  "wordBoundary left right =
     ((case left of None \<Rightarrow> False | Some c \<Rightarrow> isWordChar c)
      \<noteq> (case right of None \<Rightarrow> False | Some c \<Rightarrow> isWordChar c))"

fun startsWithIgnoreCase :: "ustring \<Rightarrow> ustring \<Rightarrow> bool" where
  "startsWithIgnoreCase s [] = True"
| "startsWithIgnoreCase [] (p # ps) = False"
| "startsWithIgnoreCase (c # cs) (p # ps) =
     (upperUnit c = upperUnit p \<and> startsWithIgnoreCase cs ps)"

fun firstToken :: "ustring list \<Rightarrow> ustring \<Rightarrow> ustring option" where
  "firstToken [] s = None"
| "firstToken (t # ts) s =
     (if startsWithIgnoreCase s t
         \<and> wordBoundary (elemAt s (length t - 1)) (elemAt s (length t))
      then Some (take (length t) s)
      else firstToken ts s)"

definition sizeAt :: "nat option \<Rightarrow> ustring \<Rightarrow> ustring option" where
  "sizeAt left s =
     (if wordBoundary left (elemAt s 0) then firstToken sizeTokens s else None)"

fun sizeMatch :: "nat option \<Rightarrow> ustring \<Rightarrow> ustring option" where
  "sizeMatch left [] = sizeAt left []"
| "sizeMatch left (c # cs) =
     (case sizeAt left (c # cs) of Some m \<Rightarrow> Some m | None \<Rightarrow> sizeMatch (Some c) cs)"

definition extractSize :: "ustring \<Rightarrow> row \<Rightarrow> ustring" where
  "extractSize rawData row =
     (if truthy (row (u ''size'')) then orElse (row (u ''size'')) []
      else case sizeMatch None rawData of
             Some m \<Rightarrow> toUpperCase m
           | None \<Rightarrow> u ''M'')"

section \<open>The route\<close>

subsection \<open>Numbers\<close>

text \<open>
  \<^verbatim>\<open>const price = parseFloat(enrichedRow['price']) || 0;\<close>
  \<^verbatim>\<open>enrichedRow['mrp'] = price > 0 ? (price * 1.25).toFixed(2) : '';\<close>
  These two lines compute with IEEE 754 doubles. The row steps take the arithmetic as a
  parameter: for the string \<open>p\<close> read from \<^verbatim>\<open>enrichedRow['price']\<close>,
  \<open>priceIsPositive N p\<close> is the test \<^verbatim>\<open>(parseFloat(p) || 0) > 0\<close> and
  \<open>scaledToFixed N p\<close> is \<^verbatim>\<open>((parseFloat(p) || 0) * 1.25).toFixed(2)\<close>. What does not
  depend on the numbers is stated for every \<open>N\<close>; \<open>jsNumerics\<close> below is the arithmetic
  of JavaScript.
\<close>

record numerics =
  priceIsPositive :: "ustring \<Rightarrow> bool"
  scaledToFixed :: "ustring \<Rightarrow> ustring"

definition mrpValue :: "numerics \<Rightarrow> row \<Rightarrow> ustring" where
  "mrpValue N enrichedRow =
     (let price = orElse (enrichedRow (u ''price'')) []
      in if priceIsPositive N price then scaledToFixed N price else [])"

text \<open>
  The numbers of JavaScript for these two lines. A double is not-a-number, an infinity
  with its sign, or \<open>Finite s m e\<close>, which is \<open>m * 2^e\<close>, negative when \<open>s\<close> holds, with
  \<open>m < 2^53\<close>, \<open>-1074 \<le> e \<le> 971\<close>, and \<open>2^52 \<le> m\<close> unless \<open>e = -1074\<close>; so a value has
  one representation, and the two zeros are \<open>Finite False 0 (-1074)\<close> and
  \<open>Finite True 0 (-1074)\<close>.
\<close>

datatype jsnum = NaN | Infinite bool | Finite bool nat int

fun bitLength :: "nat \<Rightarrow> nat" where
  "bitLength n = (if n = 0 then 0 else Suc (bitLength (n div 2)))"

declare bitLength.simps [simp del]

text \<open>\<open>atLeastPow2 a b e\<close> is \<open>2^e \<le> a / b\<close>, and \<open>floorLog2 a b\<close> the largest such \<open>e\<close>, for
  positive \<open>a\<close> and \<open>b\<close>.\<close>

definition atLeastPow2 :: "nat \<Rightarrow> nat \<Rightarrow> int \<Rightarrow> bool" where
  "atLeastPow2 a b e = (if 0 \<le> e then b * 2 ^ nat e \<le> a else b \<le> a * 2 ^ nat (- e))"

definition floorLog2 :: "nat \<Rightarrow> nat \<Rightarrow> int" where
  "floorLog2 a b =
     (let e = int (bitLength a) - int (bitLength b)
      in if atLeastPow2 a b e then e else e - 1)"

text \<open>The integer nearest to \<open>num / den\<close>, the even one of two.\<close>

definition roundHalfEven :: "nat \<Rightarrow> nat \<Rightarrow> nat" where
  "roundHalfEven num den =
     (let f = num div den; r = num mod den
      in if 2 * r < den then f
         else if den < 2 * r then f + 1
         else if even f then f else f + 1)"

text \<open>
  The double nearest to \<open>a / b\<close>, ties to even, as mantissa and exponent; \<open>None\<close> when
  the rounded value is beyond the largest double. The quantum is \<open>2^(e - 52)\<close> for a
  value in \<open>[2^e, 2^(e+1))\<close>, and \<open>2^(-1074)\<close> below \<open>2^(-1022)\<close>.
\<close>

definition nearestDouble :: "nat \<Rightarrow> nat \<Rightarrow> (nat \<times> int) option" where
  "nearestDouble a b =
     (if a = 0 then Some (0, - 1074)
      else let q = max (floorLog2 a b) (- 1022) - 52;
               n = (if 0 \<le> q then roundHalfEven a (b * 2 ^ nat q)
                    else roundHalfEven (a * 2 ^ nat (- q)) b);
               m = (if n = 2 ^ 53 then 2 ^ 52 else n);
               e = (if n = 2 ^ 53 then q + 1 else q)
           in if 971 < e then None else Some (m, e))"

definition digitsValue :: "ustring \<Rightarrow> nat" where
  "digitsValue s = foldl (\<lambda>n c. 10 * n + (c - 48)) 0 s"

text \<open>
  \<^verbatim>\<open>parseFloat(s)\<close> skips leading white space and reads the longest prefix that is a
  decimal literal: a sign, then \<^verbatim>\<open>Infinity\<close>, or digits with an optional fraction and
  an optional exponent, where a digit is needed before or after the dot, and an
  exponent counts only with its digits. \<open>exponentPart\<close> is the value of the exponent
  that starts the string, 0 when none does; \<open>strDecimal\<close> gives the unsigned literal
  as \<open>(d, x)\<close>, which is \<open>d * 10^x\<close>. The value is rounded to the nearest double, with
  all of its digits: ECMAScript lets an implementation replace the digits after the
  twentieth significant one by zeros, which the model does not do.
\<close>

definition exponentPart :: "ustring \<Rightarrow> int" where
  "exponentPart s =
     (case s of
        [] \<Rightarrow> 0
      | c # cs \<Rightarrow>
          if c = 101 \<or> c = 69 then
            (case cs of
               [] \<Rightarrow> 0
             | d # ds \<Rightarrow>
                 if isDigit d then int (digitsValue (takeWhile isDigit cs))
                 else if (d = 43 \<or> d = 45) \<and> takeWhile isDigit ds \<noteq> [] then
                   (if d = 45 then - int (digitsValue (takeWhile isDigit ds))
                    else int (digitsValue (takeWhile isDigit ds)))
                 else 0)
          else 0)"

definition strDecimal :: "ustring \<Rightarrow> (nat \<times> int) option" where
  "strDecimal s =
     (let whole = takeWhile isDigit s;
          rest = dropWhile isDigit s;
          dotted = (case rest of [] \<Rightarrow> False | c # _ \<Rightarrow> c = 46);
          fraction = (if dotted then takeWhile isDigit (tl rest) else []);
          afterFraction = (if dotted then dropWhile isDigit (tl rest) else rest)
      in if whole = [] \<and> fraction = [] then None
         else Some (digitsValue (whole @ fraction),
                    exponentPart afterFraction - int (length fraction)))"

definition parseFloat :: "ustring \<Rightarrow> jsnum" where
  "parseFloat s =
     (let trimmed = dropWhile isSpace s;
          negative = (case trimmed of [] \<Rightarrow> False | c # _ \<Rightarrow> c = 45);
          signed = (case trimmed of [] \<Rightarrow> False | c # _ \<Rightarrow> c = 43 \<or> c = 45);
          literal = (if signed then tl trimmed else trimmed)
      in if startsWith literal (u ''Infinity'') then Infinite negative
         else case strDecimal literal of
                None \<Rightarrow> NaN
              | Some (d, x) \<Rightarrow>
                  (case (if 0 \<le> x then nearestDouble (d * 10 ^ nat x) 1
                         else nearestDouble d (10 ^ nat (- x))) of
                     None \<Rightarrow> Infinite negative
                   | Some (m, e) \<Rightarrow> Finite negative m e))"

text \<open>\<^verbatim>\<open>v || 0\<close>, \<^verbatim>\<open>v > 0\<close> and \<^verbatim>\<open>v * 1.25\<close>; 1.25 is a double, so the product is the
  double nearest to five quarters of \<open>v\<close>.\<close>

definition orZero :: "jsnum \<Rightarrow> jsnum" where
  "orZero v =
     (case v of
        NaN \<Rightarrow> Finite False 0 (- 1074)
      | Infinite s \<Rightarrow> v
      | Finite s m e \<Rightarrow> if m = 0 then Finite False 0 (- 1074) else v)"

definition greaterZero :: "jsnum \<Rightarrow> bool" where
  "greaterZero v =
     (case v of NaN \<Rightarrow> False | Infinite s \<Rightarrow> \<not> s | Finite s m e \<Rightarrow> \<not> s \<and> 0 < m)"

definition times125 :: "jsnum \<Rightarrow> jsnum" where
  "times125 v =
     (case v of
        NaN \<Rightarrow> NaN
      | Infinite s \<Rightarrow> Infinite s
      | Finite s m e \<Rightarrow>
          (case (if 0 \<le> e then nearestDouble (5 * m * 2 ^ nat e) 4
                 else nearestDouble (5 * m) (4 * 2 ^ nat (- e))) of
             None \<Rightarrow> Infinite s
           | Some (m', e') \<Rightarrow> Finite s m' e'))"

fun showNat :: "nat \<Rightarrow> ustring" where
  "showNat n = (if n < 10 then [48 + n] else showNat (n div 10) @ [48 + n mod 10])"

declare showNat.simps [simp del]

text \<open>
  \<^verbatim>\<open>v.toFixed(2)\<close> of a finite \<open>v\<close> below \<open>10^21\<close> in size: with \<open>n\<close> the integer nearest
  to \<open>100 * v\<close>, the larger of two, the digits of \<open>n\<close> with a dot before the last two,
  and at least one digit before the dot.
\<close>

definition atLeast1e21 :: "nat \<Rightarrow> int \<Rightarrow> bool" where
  "atLeast1e21 m e \<longleftrightarrow> 0 \<le> e \<and> 10 ^ 21 \<le> m * 2 ^ nat e"

definition hundredths :: "nat \<Rightarrow> int \<Rightarrow> nat" where
  "hundredths m e =
     (if 0 \<le> e then 100 * m * 2 ^ nat e
      else (200 * m + 2 ^ nat (- e)) div (2 * 2 ^ nat (- e)))"

definition fixed2 :: "nat \<Rightarrow> ustring" where
  "fixed2 n = showNat (n div 100) @ [46, 48 + n mod 100 div 10, 48 + n mod 10]"

text \<open>
  From \<open>10^21\<close> on \<^verbatim>\<open>toFixed\<close> gives \<^verbatim>\<open>String(v)\<close>, the exponent form of the shortest
  decimal that rounds to \<open>v\<close>, the nearest to \<open>v\<close> of two, the even one on a tie. Such a
  \<open>v\<close> is an integer \<open>X\<close>. \<open>shortest X j\<close> tries the two multiples of \<open>10^j\<close> around \<open>X\<close>,
  then smaller powers; \<open>exponentForm\<close> prints the result.
\<close>

definition roundsTo :: "nat \<Rightarrow> nat \<Rightarrow> bool" where
  "roundsTo c X \<longleftrightarrow> nearestDouble c 1 = nearestDouble X 1"

fun shortest :: "nat \<Rightarrow> nat \<Rightarrow> nat" where
  "shortest X j =
     (if j = 0 then X
      else let lo = (X div 10 ^ j) * 10 ^ j;
               hi = lo + 10 ^ j
           in if roundsTo lo X \<and> roundsTo hi X then
                (if X - lo < hi - X then lo
                 else if hi - X < X - lo then hi
                 else if even (X div 10 ^ j) then lo else hi)
              else if roundsTo lo X then lo
              else if roundsTo hi X then hi
              else shortest X (j - 1))"

declare shortest.simps [simp del]

definition exponentForm :: "nat \<Rightarrow> ustring" where
  "exponentForm c =
     (let digits = showNat c;
          significant = rev (dropWhile (\<lambda>d. d = 48) (rev (tl digits)))
      in hd digits # (if significant = [] then [] else 46 # significant)
         @ u ''e+'' @ showNat (length digits - 1))"

definition toFixed2 :: "jsnum \<Rightarrow> ustring" where
  "toFixed2 v =
     (case v of
        NaN \<Rightarrow> u ''NaN''
      | Infinite s \<Rightarrow> (if s then u ''-Infinity'' else u ''Infinity'')
      | Finite s m e \<Rightarrow>
          (if s \<and> 0 < m then u ''-'' else [])
          @ (if atLeast1e21 m e
             then exponentForm (shortest (m * 2 ^ nat e) (length (showNat (m * 2 ^ nat e)) - 1))
             else fixed2 (hundredths m e)))"

definition jsNumerics :: numerics where
  "jsNumerics =
     \<lparr> priceIsPositive = (\<lambda>p. greaterZero (orZero (parseFloat p))),
       scaledToFixed = (\<lambda>p. toFixed2 (times125 (orZero (parseFloat p)))) \<rparr>"

subsection \<open>One row\<close>

text \<open>
  The body of \<^verbatim>\<open>catalog.map((row, index) => ...)\<close> is a sequence of guarded assignments
  to the copy \<^verbatim>\<open>enrichedRow = { ...row }\<close>. \<open>setIfFalsy key compute\<close> is
  \<^verbatim>\<open>if (!enrichedRow[key]) { enrichedRow[key] = compute }\<close>, where the new value may read
  the current \<^verbatim>\<open>enrichedRow\<close>. The first assignment has a second condition.
\<close>

definition setIfFalsy :: "ustring \<Rightarrow> (row \<Rightarrow> ustring) \<Rightarrow> row \<Rightarrow> row" where
  "setIfFalsy key compute enrichedRow =
     (if truthy (enrichedRow key) then enrichedRow
      else enrichedRow(key \<mapsto> compute enrichedRow))"

definition titleStep :: "ustring \<Rightarrow> row \<Rightarrow> row \<Rightarrow> row" where
  "titleStep rawInfo row enrichedRow =
     (if \<not> truthy (enrichedRow (u ''product_title'')) \<and> rawInfo \<noteq> []
      then enrichedRow(u ''product_title'' \<mapsto> generateTitle rawInfo row)
      else enrichedRow)"

definition platforms :: "ustring list" where
  "platforms = [u ''amazon'', u ''flipkart'', u ''meesho'', u ''myntra'']"

text \<open>The body of \<^verbatim>\<open>platforms.forEach(platform => ...)\<close>.\<close>

definition platformSteps :: "ustring \<Rightarrow> ustring \<Rightarrow> (row \<Rightarrow> row) list" where
  "platformSteps rawInfo platform =
     [setIfFalsy (platform @ u ''_title'')
        (\<lambda>enrichedRow. generatePlatformTitle platform enrichedRow rawInfo),
      setIfFalsy (platform @ u ''_description'')
        (\<lambda>enrichedRow. generatePlatformDescription platform enrichedRow rawInfo),
      setIfFalsy (platform @ u ''_keywords'')
        (\<lambda>enrichedRow. generateKeywords platform enrichedRow rawInfo)]"

definition steps :: "numerics \<Rightarrow> ustring \<Rightarrow> row \<Rightarrow> (row \<Rightarrow> row) list" where
  "steps N rawInfo row =
     [titleStep rawInfo row,
      setIfFalsy (u ''description'') (\<lambda>_. generateDescription rawInfo row),
      setIfFalsy (u ''price'')
        (\<lambda>_. orElse (Some (extractPrice rawInfo)) (orElse (row (u ''price'')) [])),
      setIfFalsy (u ''mrp'') (mrpValue N)]
     @ concat (map (platformSteps rawInfo) platforms)
     @ [setIfFalsy (u ''brand'') (\<lambda>_. extractBrand rawInfo row),
        setIfFalsy (u ''category'') (\<lambda>_. extractCategory rawInfo row),
        setIfFalsy (u ''color'') (\<lambda>_. extractColor rawInfo row),
        setIfFalsy (u ''size'') (\<lambda>_. extractSize rawInfo row),
        setIfFalsy (u ''material'') (\<lambda>_. extractMaterial rawInfo row),
        setIfFalsy (u ''stock_status'') (\<lambda>_. u ''In Stock'')]"

definition enrichRow :: "numerics \<Rightarrow> ustring \<Rightarrow> row \<Rightarrow> row" where
  "enrichRow N rawInfo row =
     fold (\<lambda>step enrichedRow. step enrichedRow) (steps N rawInfo row) row"

subsection \<open>The request\<close>

text \<open>\<^verbatim>\<open>rawData.split('\n').filter(line => line.trim())\<close>.\<close>

definition rawLinesOf :: "ustring \<Rightarrow> ustring list" where
  "rawLinesOf rawData = filter (\<lambda>line. trim line \<noteq> []) (splitLines rawData)"

text \<open>\<^verbatim>\<open>rawLines[index] || rawLines[0] || ''\<close>.\<close>

definition rawInfoAt :: "ustring list \<Rightarrow> nat \<Rightarrow> ustring" where
  "rawInfoAt rawLines index = orElse (elemAt rawLines index) (orElse (elemAt rawLines 0) [])"

definition enrich :: "numerics \<Rightarrow> row list \<Rightarrow> ustring \<Rightarrow> row list" where
  "enrich N catalog rawData =
     (let rawLines = rawLinesOf rawData
      in map (\<lambda>(index, row). enrichRow N (rawInfoAt rawLines index) row)
           (enumerate 0 catalog))"

text \<open>
  The body of the request: \<open>catalog\<close> is \<open>None\<close> when the field is missing or not an
  array, \<open>rawData\<close> is \<open>None\<close> when the field is missing. A response is the enriched
  catalog, or a status with an error message. The third response of the source, status
  500 from the \<^verbatim>\<open>catch\<close>, needs an exception, and no step of the model raises one on
  rows of strings.
\<close>

datatype response = Success "row list" | Failure nat ustring

definition POST :: "numerics \<Rightarrow> row list option \<Rightarrow> ustring option \<Rightarrow> response" where
  "POST N catalog rawData =
     (case catalog of
        None \<Rightarrow> Failure 400 (u ''Invalid catalog data'')
      | Some rows \<Rightarrow>
          if rows = [] then Failure 400 (u ''Invalid catalog data'')
          else (case rawData of
                  None \<Rightarrow> Failure 400 (u ''Raw data is required'')
                | Some raw \<Rightarrow>
                    if raw = [] then Failure 400 (u ''Raw data is required'')
                    else Success (enrich N rows raw)))"

section \<open>Two decimal places\<close>

text \<open>A string with exactly two decimal places: digits, at least one, a dot, two digits.\<close>

definition hasTwoDecimals :: "ustring \<Rightarrow> bool" where
  "hasTwoDecimals s =
     (case rev s of
        d2 # d1 # dot # whole \<Rightarrow>
          isDigit d2 \<and> isDigit d1 \<and> dot = 46 \<and> whole \<noteq> [] \<and> list_all isDigit whole
      | _ \<Rightarrow> False)"

section \<open>Derived keys\<close>

text \<open>
  The keys an enriched row is expected to hold: ten common fields, and a title, a
  description and keywords for each platform.
\<close>

definition derivedKeys :: "ustring list" where
  "derivedKeys =
     [u ''product_title'', u ''description'', u ''price'', u ''mrp'', u ''brand'', u ''category'',
      u ''color'', u ''size'', u ''material'', u ''stock_status'']
     @ concat (map (\<lambda>p. [p @ u ''_title'', p @ u ''_description'', p @ u ''_keywords''])
         platforms)"

text \<open>
  Samples: the raw line \<open>Nike Blue T-Shirt M Cotton R1200\<close>, with \<open>R\<close> the rupee sign, and
  a row in which every derived key has a value.
\<close>

definition sampleLine :: ustring where
  "sampleLine = u ''Nike Blue T-Shirt M Cotton '' @ rupee # u ''1200''"

definition completeRow :: row where
  "completeRow = map_of (map (\<lambda>key. (key, u ''kept'')) derivedKeys)"

section \<open>Strings and keys\<close>

lemma u_inj: "u a = u b \<longleftrightarrow> a = b"
  unfolding u_def by (rule inj_map_eq_map) (simp add: inj_on_def)

lemma u_append: "u a @ u b = u (a @ b)"
  by (simp add: u_def)

lemma u_append_left: "u a @ u b @ s = u (a @ b) @ s"
  by (simp add: u_def)

lemma orElse_falsy: "\<not> truthy v \<Longrightarrow> orElse v d = d"
  by (auto simp: truthy_def orElse_def split: option.splits)

lemma orElse_empty_iff: "orElse v [] = [] \<longleftrightarrow> \<not> truthy v"
  by (auto simp: truthy_def orElse_def split: option.splits)

lemma truthy_empty: "\<not> truthy (Map.empty key)"
  by (simp add: truthy_def)

section \<open>Evaluation of samples\<close>

lemmas vocabulary_eval =
  extractBrand_def extractCategory_def extractColor_def extractMaterial_def
  commonBrands_def categories_def colors_def materials_def
  toLowerCase_def lowerUnit_def truthy_def orElse_def u_def rupee_def

lemmas lines_eval = rawLinesOf_def trim_def isSpace_def nl_def u_def

section \<open>The request and its raw lines\<close>

lemma POST_accepted:
  assumes "POST N (Some catalog) (Some rawData) = Success enrichedCatalog"
  shows "catalog \<noteq> []" and "rawData \<noteq> []" and "enrichedCatalog = enrich N catalog rawData"
  using assms by (auto simp: POST_def split: if_splits)

lemma POST_Success:
  "catalog \<noteq> [] \<Longrightarrow> rawData \<noteq> [] \<Longrightarrow>
   POST N (Some catalog) (Some rawData) = Success (enrich N catalog rawData)"
  by (simp add: POST_def)

lemma enrich_length: "length (enrich N catalog rawData) = length catalog"
  by (simp add: enrich_def)

lemma enrich_nth:
  "i < length catalog \<Longrightarrow>
   enrich N catalog rawData ! i = enrichRow N (rawInfoAt (rawLinesOf rawData) i) (catalog ! i)"
  by (simp add: enrich_def nth_enumerate_eq)

lemma trim_Nil: "trim [] = []"
  by (simp add: trim_def)

lemma rawLines_nonempty: "l \<in> set (rawLinesOf rawData) \<Longrightarrow> l \<noteq> []"
  by (auto simp: rawLinesOf_def trim_Nil)

lemma rawInfoAt_lines:
  assumes "\<And>l. l \<in> set rawLines \<Longrightarrow> l \<noteq> []"
  shows "rawInfoAt rawLines i =
     (if i < length rawLines then rawLines ! i
      else if rawLines \<noteq> [] then rawLines ! 0 else [])"
proof (cases "i < length rawLines")
  case True
  then have "rawLines ! i \<noteq> []" using assms by simp
  with True show ?thesis by (simp add: rawInfoAt_def elemAt_def orElse_def)
next
  case False
  show ?thesis
  proof (cases rawLines)
    case Nil
    then show ?thesis by (simp add: rawInfoAt_def elemAt_def orElse_def)
  next
    case (Cons l ls)
    then have "l \<noteq> []" using assms by simp
    with False Cons show ?thesis by (simp add: rawInfoAt_def elemAt_def orElse_def)
  qed
qed

lemma all_dropWhile: "(\<forall>x\<in>set (dropWhile P s). P x) \<longleftrightarrow> (\<forall>x\<in>set s. P x)"
  by (induction s) auto

lemma trim_empty_iff: "trim s = [] \<longleftrightarrow> (\<forall>c\<in>set s. isSpace c)"
  by (simp add: trim_def dropWhile_eq_Nil_conv all_dropWhile)

lemma splitLines_subset: "l \<in> set (splitLines s) \<Longrightarrow> set l \<subseteq> set s"
proof (induction s arbitrary: l)
  case Nil
  then show ?case by simp
next
  case (Cons c cs)
  show ?case
  proof (cases "c = nl")
    case True
    with Cons show ?thesis by auto
  next
    case False
    show ?thesis
    proof (cases "splitLines cs")
      case Nil
      with False Cons.prems show ?thesis by simp
    next
      case (Cons a rest)
      then have a: "set a \<subseteq> set cs" and rest: "\<And>l'. l' \<in> set rest \<Longrightarrow> set l' \<subseteq> set cs"
        using Cons.IH by simp_all
      from False Cons Cons.prems have "l = c # a \<or> l \<in> set rest" by simp
      then show ?thesis using a rest by auto
    qed
  qed
qed

lemma blank_no_lines:
  assumes "trim rawData = []"
  shows "rawLinesOf rawData = []"
proof -
  have "trim l = []" if "l \<in> set (splitLines rawData)" for l
    using assms splitLines_subset [OF that] by (auto simp: trim_empty_iff)
  then show ?thesis by (simp add: rawLinesOf_def filter_empty_conv)
qed

lemma enrich_no_lines:
  assumes "rawLinesOf rawData = []"
  shows "enrich N catalog rawData = map (enrichRow N []) catalog"
proof (rule nth_equalityI)
  show "length (enrich N catalog rawData) = length (map (enrichRow N []) catalog)"
    by (simp add: enrich_length)
next
  fix i
  assume "i < length (enrich N catalog rawData)"
  then have "i < length catalog" by (simp add: enrich_length)
  then show "enrich N catalog rawData ! i = map (enrichRow N []) catalog ! i"
    by (simp add: enrich_nth assms rawInfoAt_def elemAt_def orElse_def)
qed

lemma rawInfoAt_empty_iff: "rawInfoAt (rawLinesOf rawData) i = [] \<longleftrightarrow> rawLinesOf rawData = []"
proof (cases "rawLinesOf rawData = []")
  case True
  then show ?thesis by (simp add: rawInfoAt_def elemAt_def orElse_def)
next
  case False
  have "rawInfoAt (rawLinesOf rawData) i \<in> set (rawLinesOf rawData)"
    using False rawInfoAt_lines [of "rawLinesOf rawData" i, OF rawLines_nonempty]
    by (auto simp: nth_mem)
  then have "rawInfoAt (rawLinesOf rawData) i \<noteq> []" by (rule rawLines_nonempty)
  with False show ?thesis by simp
qed

lemma completeRow_truthy: "key \<in> set derivedKeys \<Longrightarrow> truthy (completeRow key)"
  by (simp add: completeRow_def map_of_map_restrict truthy_def u_def)

section \<open>The steps of one row\<close>

lemma setIfFalsy_other: "key \<noteq> k \<Longrightarrow> setIfFalsy key f r k = r k"
  by (simp add: setIfFalsy_def)

lemma setIfFalsy_same:
  "setIfFalsy key f r key = (if truthy (r key) then r key else Some (f r))"
  by (simp add: setIfFalsy_def)

lemma setIfFalsy_present: "\<exists>v. setIfFalsy key f r key = Some v"
  by (simp add: setIfFalsy_def truthy_def split: option.splits)

lemma setIfFalsy_keep: "r k = Some v \<Longrightarrow> v \<noteq> [] \<Longrightarrow> setIfFalsy key f r k = Some v"
  by (auto simp: setIfFalsy_def truthy_def)

lemma setIfFalsy_truthy: "truthy (r key) \<Longrightarrow> setIfFalsy key f r = r"
  by (simp add: setIfFalsy_def)

lemma titleStep_other: "u ''product_title'' \<noteq> k \<Longrightarrow> titleStep rawInfo row r k = r k"
  by (simp add: titleStep_def)

lemma titleStep_same:
  "titleStep rawInfo row r (u ''product_title'') =
     (if \<not> truthy (r (u ''product_title'')) \<and> rawInfo \<noteq> []
      then Some (generateTitle rawInfo row) else r (u ''product_title''))"
  by (simp add: titleStep_def)

lemma titleStep_keep: "r k = Some v \<Longrightarrow> v \<noteq> [] \<Longrightarrow> titleStep rawInfo row r k = Some v"
  by (auto simp: titleStep_def truthy_def)

lemma titleStep_truthy: "truthy (r (u ''product_title'')) \<Longrightarrow> titleStep rawInfo row r = r"
  by (simp add: titleStep_def)

lemmas unroll = enrichRow_def steps_def platformSteps_def platforms_def u_append
lemmas peel = setIfFalsy_other titleStep_other u_inj

lemma steps_shape:
  assumes "step \<in> set (steps N rawInfo row)"
  shows "step = titleStep rawInfo row \<or> (\<exists>key\<in>set derivedKeys. \<exists>f. step = setIfFalsy key f)"
  using assms unfolding steps_def platformSteps_def platforms_def derivedKeys_def
  by auto

lemma fold_keep:
  assumes "\<And>step r. step \<in> set ss \<Longrightarrow> r k = Some v \<Longrightarrow> step r k = Some v"
    and "r k = Some v"
  shows "fold (\<lambda>step r. step r) ss r k = Some v"
  using assms by (induction ss arbitrary: r) simp_all

lemma fold_fixed:
  assumes "\<And>step. step \<in> set ss \<Longrightarrow> step r = r"
  shows "fold (\<lambda>step r. step r) ss r = r"
  using assms
proof (induction ss)
  case Nil
  show ?case by simp
next
  case (Cons a ss)
  have a: "a r = r" using Cons.prems by simp
  have "fold (\<lambda>step r. step r) ss r = r" using Cons.IH Cons.prems by simp
  with a show ?case by simp
qed

lemma enrichRow_keeps:
  assumes "row k = Some v" and "v \<noteq> []"
  shows "enrichRow N rawInfo row k = Some v"
  unfolding enrichRow_def
proof (rule fold_keep)
  fix step r
  assume "step \<in> set (steps N rawInfo row)" and r: "r k = Some v"
  then consider "step = titleStep rawInfo row" | key f where "step = setIfFalsy key f"
    using steps_shape by blast
  then show "step r k = Some v"
    using r assms(2) by cases (simp_all add: titleStep_keep setIfFalsy_keep)
qed (rule assms(1))

lemma enrichRow_complete:
  assumes "\<forall>key\<in>set derivedKeys. truthy (row key)"
  shows "enrichRow N rawInfo row = row"
  unfolding enrichRow_def
proof (rule fold_fixed)
  fix step
  assume "step \<in> set (steps N rawInfo row)"
  then consider "step = titleStep rawInfo row"
    | key f where "key \<in> set derivedKeys" "step = setIfFalsy key f"
    using steps_shape by blast
  then show "step row = row"
  proof cases
    case 1
    have "u ''product_title'' \<in> set derivedKeys" by (simp add: derivedKeys_def)
    with assms have "truthy (row (u ''product_title''))" by blast
    with 1 show ?thesis by (simp add: titleStep_truthy)
  next
    case 2
    with assms show ?thesis by (simp add: setIfFalsy_truthy)
  qed
qed

lemma enrichRow_present:
  assumes "key \<in> set derivedKeys" and "key \<noteq> u ''product_title''"
  shows "enrichRow N rawInfo row key \<noteq> None"
  using assms unfolding derivedKeys_def platforms_def
  by (simp add: u_append) (elim disjE, simp_all add: unroll peel setIfFalsy_present)

lemma enrichRow_title:
  "enrichRow N rawInfo row (u ''product_title'') =
     (if \<not> truthy (row (u ''product_title'')) \<and> rawInfo \<noteq> []
      then Some (generateTitle rawInfo row) else row (u ''product_title''))"
  by (simp add: unroll peel titleStep_same)

lemma enrichRow_description:
  "enrichRow N rawInfo row (u ''description'') =
     (if truthy (row (u ''description'')) then row (u ''description'')
      else Some (generateDescription rawInfo row))"
  by (simp add: unroll peel setIfFalsy_same)

lemma generateDescription_synthesized:
  assumes "\<not> truthy (row (u ''description''))" and "\<not> truthy (row (u ''desc''))"
  shows "generateDescription rawInfo row =
     u ''Premium '' @ orElse (row (u ''brand'')) (u ''Quality'') @ u '' ''
     @ orElse (row (u ''category'')) (u ''product'')
     @ (if truthy (row (u ''color'')) then u '' in '' @ orElse (row (u ''color'')) [] @ u '' color''
        else [])
     @ (if truthy (row (u ''material'')) then u '' made with '' @ orElse (row (u ''material'')) []
        else [])
     @ u ''. '' @ take 200 rawInfo"
  using assms by (simp add: generateDescription_def Let_def orElse_falsy orElse_empty_iff)

lemma enrichRow_brand:
  "\<not> truthy (row (u ''brand'')) \<Longrightarrow>
   enrichRow N rawInfo row (u ''brand'') = Some (extractBrand rawInfo row)"
  by (simp add: unroll peel setIfFalsy_same)

lemma enrichRow_category:
  "\<not> truthy (row (u ''category'')) \<Longrightarrow>
   enrichRow N rawInfo row (u ''category'') = Some (extractCategory rawInfo row)"
  by (simp add: unroll peel setIfFalsy_same)

lemma enrichRow_color:
  "\<not> truthy (row (u ''color'')) \<Longrightarrow>
   enrichRow N rawInfo row (u ''color'') = Some (extractColor rawInfo row)"
  by (simp add: unroll peel setIfFalsy_same)

lemma enrichRow_size:
  "\<not> truthy (row (u ''size'')) \<Longrightarrow>
   enrichRow N rawInfo row (u ''size'') = Some (extractSize rawInfo row)"
  by (simp add: unroll peel setIfFalsy_same)

lemma enrichRow_material:
  "\<not> truthy (row (u ''material'')) \<Longrightarrow>
   enrichRow N rawInfo row (u ''material'') = Some (extractMaterial rawInfo row)"
  by (simp add: unroll peel setIfFalsy_same)

lemma generateTitle_title:
  "truthy (row (u ''title'')) \<Longrightarrow> generateTitle rawInfo row = orElse (row (u ''title'')) []"
  by (auto simp: generateTitle_def Let_def truthy_def orElse_def split: option.splits)

lemma keywords_without_attributes:
  assumes "\<not> truthy (r (u ''brand''))" and "\<not> truthy (r (u ''category''))"
    and "\<not> truthy (r (u ''color''))" and "\<not> truthy (r (u ''material''))"
  shows "generateKeywords platform r rawInfo = u ''quality, premium, best, latest, trending''"
  using assms by (simp add: generateKeywords_def orElse_falsy u_def)

lemma titles_without_attributes:
  assumes "\<not> truthy (r (u ''brand''))" and "\<not> truthy (r (u ''color''))"
    and "\<not> truthy (r (u ''size''))"
  shows "generatePlatformTitle (u ''amazon'') r rawInfo =
           tidy (u '' '' @ orElse (r (u ''product_title'')) (orElse (r (u ''title'')) (u ''Product''))
                 @ u ''  '')"
    and "generatePlatformTitle (u ''flipkart'') r rawInfo =
           tidy (orElse (r (u ''product_title'')) (orElse (r (u ''title'')) (u ''Product''))
                 @ u '' () - '')"
    and "generatePlatformTitle (u ''meesho'') r rawInfo =
           tidy (orElse (r (u ''product_title'')) (orElse (r (u ''title'')) (u ''Product''))
                 @ u ''  '')"
    and "generatePlatformTitle (u ''myntra'') r rawInfo =
           tidy (u ''  '' @ orElse (r (u ''product_title'')) (orElse (r (u ''title'')) (u ''Product'')))"
  using assms
  by (simp_all add: generatePlatformTitle_def orElse_falsy u_inj u_append u_append_left)

lemma enrichRow_keywords:
  assumes "\<not> truthy (row (u ''brand''))" and "\<not> truthy (row (u ''category''))"
    and "\<not> truthy (row (u ''color''))" and "\<not> truthy (row (u ''material''))"
    and "p \<in> set platforms" and "\<not> truthy (row (p @ u ''_keywords''))"
  shows "enrichRow N rawInfo row (p @ u ''_keywords'')
     = Some (u ''quality, premium, best, latest, trending'')"
  using assms(5,6,1-4) unfolding platforms_def
  by (simp add: u_append)
    (elim disjE, simp_all add: unroll peel setIfFalsy_same keywords_without_attributes)

lemma enrichRow_platform_titles:
  assumes "\<not> truthy (row (u ''brand''))" and "\<not> truthy (row (u ''color''))"
    and "\<not> truthy (row (u ''size''))"
  shows "\<not> truthy (row (u ''amazon_title'')) \<Longrightarrow>
         enrichRow N rawInfo row (u ''amazon_title'') =
           Some (tidy (u '' '' @ orElse (enrichRow N rawInfo row (u ''product_title''))
                                  (orElse (row (u ''title'')) (u ''Product'')) @ u ''  ''))"
    and "\<not> truthy (row (u ''flipkart_title'')) \<Longrightarrow>
         enrichRow N rawInfo row (u ''flipkart_title'') =
           Some (tidy (orElse (enrichRow N rawInfo row (u ''product_title''))
                         (orElse (row (u ''title'')) (u ''Product'')) @ u '' () - ''))"
    and "\<not> truthy (row (u ''meesho_title'')) \<Longrightarrow>
         enrichRow N rawInfo row (u ''meesho_title'') =
           Some (tidy (orElse (enrichRow N rawInfo row (u ''product_title''))
                         (orElse (row (u ''title'')) (u ''Product'')) @ u ''  ''))"
    and "\<not> truthy (row (u ''myntra_title'')) \<Longrightarrow>
         enrichRow N rawInfo row (u ''myntra_title'') =
           Some (tidy (u ''  '' @ orElse (enrichRow N rawInfo row (u ''product_title''))
                                   (orElse (row (u ''title'')) (u ''Product''))))"
  using assms
  by (simp_all add: unroll peel setIfFalsy_same titleStep_same titles_without_attributes)

section \<open>Price extraction\<close>

lemma space_not_digit: "isSpace c \<Longrightarrow> \<not> isDigit c"
  by (auto simp: isSpace_def isDigit_def)

lemma rupee_not_digit: "\<not> isDigit rupee"
  by (simp add: rupee_def isDigit_def)

lemma dropWhile_space_digit:
  "dropWhile isSpace t = d # r \<Longrightarrow> isDigit d \<Longrightarrow> dropWhile (\<lambda>c. \<not> isDigit c) t = d # r"
  by (induction t) (auto simp: space_not_digit split: if_splits)

lemma priceAt_Some:
  assumes "priceAt s = Some g"
  shows "g = priceGroup (dropWhile (\<lambda>c. \<not> isDigit c) s)"
proof -
  define afterSign
    where "afterSign = (case s of [] \<Rightarrow> [] | c # cs \<Rightarrow> if c = rupee then cs else c # cs)"
  obtain d r where ds: "dropWhile isSpace afterSign = d # r" and d: "isDigit d"
    and g: "g = priceGroup (d # r)"
    using assms unfolding priceAt_def afterSign_def Let_def
    by (auto split: list.splits if_splits)
  have "dropWhile (\<lambda>c. \<not> isDigit c) afterSign = d # r"
    using ds d by (rule dropWhile_space_digit)
  moreover have "dropWhile (\<lambda>c. \<not> isDigit c) s = dropWhile (\<lambda>c. \<not> isDigit c) afterSign"
    unfolding afterSign_def by (cases s) (auto simp: rupee_not_digit)
  ultimately show ?thesis using g by simp
qed

lemma priceAt_Some_digit:
  assumes "priceAt s = Some g"
  shows "list_ex isDigit s"
proof -
  define afterSign
    where "afterSign = (case s of [] \<Rightarrow> [] | c # cs \<Rightarrow> if c = rupee then cs else c # cs)"
  obtain d r where ds: "dropWhile isSpace afterSign = d # r" and d: "isDigit d"
    using assms unfolding priceAt_def afterSign_def Let_def
    by (auto split: list.splits if_splits)
  have "d \<in> set (dropWhile isSpace afterSign)" using ds by simp
  then have "d \<in> set afterSign" by (rule set_dropWhileD)
  moreover have "set afterSign \<subseteq> set s"
    unfolding afterSign_def by (cases s) auto
  ultimately show ?thesis using d by (auto simp: list_ex_iff)
qed

lemma priceAt_None_head: "priceAt (c # cs) = None \<Longrightarrow> \<not> isDigit c"
  by (auto simp: priceAt_def Let_def rupee_not_digit space_not_digit
      split: list.splits if_splits)

lemma priceAt_Nil: "priceAt [] = None"
  by (simp add: priceAt_def)

text \<open>The match never depends on the sign: its group starts at the first digit of the
  string.\<close>

lemma priceMatch_first_number:
  "priceMatch s =
     (if list_ex isDigit s then Some (priceGroup (dropWhile (\<lambda>c. \<not> isDigit c) s)) else None)"
proof (induction s)
  case Nil
  show ?case by (simp add: priceAt_Nil)
next
  case (Cons c cs)
  show ?case
  proof (cases "priceAt (c # cs)")
    case None
    then have "\<not> isDigit c" by (rule priceAt_None_head)
    with None Cons show ?thesis by simp
  next
    case (Some g)
    then have "g = priceGroup (dropWhile (\<lambda>c. \<not> isDigit c) (c # cs))"
      by (rule priceAt_Some)
    moreover have "list_ex isDigit (c # cs)"
      using Some by (rule priceAt_Some_digit)
    ultimately show ?thesis using Some by simp
  qed
qed

lemmas price_eval =
  extractPrice_def priceAt_def priceGroup_def fraction_def replaceComma_def
  u_def rupee_def isDigit_def isSpace_def

section \<open>Enrichment keeps what the row has\<close>

text \<open>
  C1. For every accepted request and every row of the catalog, a key whose value is
  non-empty in the input row has the same value in the output row at the same index:
  enrichment never overwrites a non-empty field. Hence a row in which every derived key
  is non-empty comes back unchanged.
\<close>

theorem enrichment_keeps_nonempty_fields:
  assumes "POST N (Some catalog) (Some rawData) = Success enrichedCatalog"
    and "i < length catalog"
  shows "(\<forall>key v. (catalog ! i) key = Some v \<and> v \<noteq> [] \<longrightarrow> (enrichedCatalog ! i) key = Some v)
    \<and> ((\<forall>key\<in>set derivedKeys. truthy ((catalog ! i) key)) \<longrightarrow>
          enrichedCatalog ! i = catalog ! i)"
proof -
  have "enrichedCatalog ! i = enrichRow N (rawInfoAt (rawLinesOf rawData) i) (catalog ! i)"
    using POST_accepted(3) [OF assms(1)] assms(2) by (simp add: enrich_nth)
  then show ?thesis
    by (simp add: enrichRow_keeps enrichRow_complete)
qed

theorem enrichment_keeps_nonempty_fields_witness:
  "(enrich jsNumerics [[u ''title'' \<mapsto> u ''Red Dress'']] (u ''some text'') ! 0) (u ''title'')
     = Some (u ''Red Dress'')
   \<and> enrich jsNumerics [completeRow] (u ''Nike Blue'') ! 0 = completeRow"
proof -
  have a: "POST jsNumerics (Some [[u ''title'' \<mapsto> u ''Red Dress'']]) (Some (u ''some text''))
      = Success (enrich jsNumerics [[u ''title'' \<mapsto> u ''Red Dress'']] (u ''some text''))"
    by (rule POST_Success) (simp_all add: u_def)
  have b: "POST jsNumerics (Some [completeRow]) (Some (u ''Nike Blue''))
      = Success (enrich jsNumerics [completeRow] (u ''Nike Blue''))"
    by (rule POST_Success) (simp_all add: u_def)
  have "u ''Red Dress'' \<noteq> []" by (simp add: u_def)
  then show ?thesis
    using enrichment_keeps_nonempty_fields [OF a, of 0]
      enrichment_keeps_nonempty_fields [OF b, of 0]
    by (simp add: completeRow_truthy)
qed

section \<open>Presence of the derived keys\<close>

text \<open>
  C2, as the code has it. For every accepted request, every row of the enriched catalog
  holds every derived key other than \<open>product_title\<close>. The key \<open>product_title\<close> is
  assigned only when the raw line of the row is not empty: it is missing from an output
  row exactly when the raw data has no line that is non-blank after trimming and the
  input row does not have the key.
\<close>

theorem output_rows_have_derived_keys:
  assumes "POST N (Some catalog) (Some rawData) = Success enrichedCatalog"
    and "i < length catalog"
  shows "(\<forall>key\<in>set derivedKeys. key \<noteq> u ''product_title'' \<longrightarrow> (enrichedCatalog ! i) key \<noteq> None)
    \<and> ((enrichedCatalog ! i) (u ''product_title'') = None \<longleftrightarrow>
          rawLinesOf rawData = [] \<and> (catalog ! i) (u ''product_title'') = None)"
proof -
  have out: "enrichedCatalog ! i = enrichRow N (rawInfoAt (rawLinesOf rawData) i) (catalog ! i)"
    using POST_accepted(3) [OF assms(1)] assms(2) by (simp add: enrich_nth)
  have "(enrichedCatalog ! i) (u ''product_title'') = None \<longleftrightarrow>
          rawLinesOf rawData = [] \<and> (catalog ! i) (u ''product_title'') = None"
    unfolding out enrichRow_title
    by (auto simp: rawInfoAt_empty_iff truthy_def)
  moreover have "\<forall>key\<in>set derivedKeys. key \<noteq> u ''product_title'' \<longrightarrow> (enrichedCatalog ! i) key \<noteq> None"
    unfolding out using enrichRow_present by blast
  ultimately show ?thesis by blast
qed

theorem output_rows_have_derived_keys_witness:
  "(enrich jsNumerics [Map.empty] (u ''Nike Blue'') ! 0) (u ''myntra_keywords'') \<noteq> None
   \<and> (enrich jsNumerics [Map.empty] (u ''Nike Blue'') ! 0) (u ''product_title'') \<noteq> None"
proof -
  have a: "POST jsNumerics (Some [Map.empty]) (Some (u ''Nike Blue''))
      = Success (enrich jsNumerics [Map.empty] (u ''Nike Blue''))"
    by (rule POST_Success) (simp_all add: u_def)
  have "u ''myntra_keywords'' \<in> set derivedKeys"
    by (simp add: derivedKeys_def platforms_def u_append)
  moreover have "rawLinesOf (u ''Nike Blue'') \<noteq> []"
    by (simp add: lines_eval)
  ultimately show ?thesis
    using output_rows_have_derived_keys [OF a, of 0]
    by (auto simp: u_inj)
qed

text \<open>
  C2 as stated, that every row of an accepted request holds all the derived keys, fails
  on the catalog of one empty row with a raw data of one space: the request is
  accepted, and the output row has no \<open>product_title\<close>.
\<close>

theorem blank_raw_data_leaves_title_out:
  "POST jsNumerics (Some [Map.empty]) (Some (u '' ''))
     = Success (enrich jsNumerics [Map.empty] (u '' ''))
   \<and> (enrich jsNumerics [Map.empty] (u '' '') ! 0) (u ''product_title'') = None"
proof -
  have "rawLinesOf (u '' '') = []" by (simp add: lines_eval)
  then have "enrich jsNumerics [Map.empty] (u '' '') = [enrichRow jsNumerics [] Map.empty]"
    by (simp add: enrich_no_lines)
  moreover have "u '' '' \<noteq> []" by (simp add: u_def)
  ultimately show ?thesis
    by (simp add: POST_def enrichRow_title)
qed

section \<open>Validation of the raw data\<close>

text \<open>
  C3 as stated, that a raw data which is not empty but blank is reported as a
  validation error, fails: the guard of the source is \<^verbatim>\<open>if (!rawData)\<close>, which only an
  absent or empty string meets. A raw data of one space is accepted and the row is
  enriched with the empty string as its raw line.
\<close>

theorem blank_raw_data_is_accepted:
  "u '' '' \<noteq> [] \<and> trim (u '' '') = []
   \<and> POST jsNumerics (Some [Map.empty]) (Some (u '' ''))
       = Success [enrichRow jsNumerics [] Map.empty]
   \<and> POST jsNumerics (Some [Map.empty]) (Some (u '' ''))
       \<noteq> Failure 400 (u ''Raw data is required'')"
proof -
  have "rawLinesOf (u '' '') = []" by (simp add: lines_eval)
  then have "enrich jsNumerics [Map.empty] (u '' '') = [enrichRow jsNumerics [] Map.empty]"
    by (simp add: enrich_no_lines)
  moreover have "u '' '' \<noteq> []" by (simp add: u_def)
  moreover have "trim (u '' '') = []" by (simp add: lines_eval)
  ultimately show ?thesis
    by (simp add: POST_def)
qed

text \<open>
  C3, as the code has it. For every non-empty catalog, a raw data that is absent or the
  empty string gives status 400 with the message \<open>Raw data is required\<close>, and nothing is
  enriched. A raw data that is not empty but blank is accepted: it has no raw line, and
  every row is enriched with the empty string as its raw line.
\<close>

theorem raw_data_validation:
  assumes "catalog \<noteq> []"
  shows "POST N (Some catalog) None = Failure 400 (u ''Raw data is required'')
    \<and> POST N (Some catalog) (Some []) = Failure 400 (u ''Raw data is required'')
    \<and> (rawData \<noteq> [] \<and> trim rawData = [] \<longrightarrow>
         POST N (Some catalog) (Some rawData) = Success (map (enrichRow N []) catalog))"
  using assms by (simp add: POST_def blank_no_lines enrich_no_lines)

theorem raw_data_validation_witness:
  "POST jsNumerics (Some [Map.empty]) None = Failure 400 (u ''Raw data is required'')
   \<and> POST jsNumerics (Some [Map.empty]) (Some []) = Failure 400 (u ''Raw data is required'')
   \<and> POST jsNumerics (Some [Map.empty]) (Some [9, nl, 32])
       = Success [enrichRow jsNumerics [] Map.empty]"
proof -
  have "trim [9, nl, 32] = []" by (simp add: lines_eval)
  then show ?thesis
    using raw_data_validation [of "[Map.empty]" jsNumerics "[9, nl, 32]"]
    by simp
qed

section \<open>The price\<close>

text \<open>
  C4. The claim: when the expression matches, the returned price is the matched group
  with all of its commas stripped, so the group \<open>1,00,000\<close> gives \<open>100000\<close>. The source
  calls \<^verbatim>\<open>replace(',', '')\<close> with a string pattern, which removes the first comma only:
  on the line made of the rupee sign and \<open>1,00,000\<close> the matched group is \<open>1,00,000\<close> and
  the returned price is \<open>100,000\<close>.
\<close>

theorem extractPrice_keeps_second_comma:
  "priceMatch ([rupee] @ u ''1,00,000'') = Some (u ''1,00,000'')
   \<and> extractPrice ([rupee] @ u ''1,00,000'') = u ''100,000''
   \<and> extractPrice ([rupee] @ u ''1,00,000'') \<noteq> u ''100000''"
  by (simp add: price_eval)

text \<open>
  C10 as stated, that \<^verbatim>\<open>extractPrice\<close> returns the first maximal digit group, fails on
  a group that holds a comma: on the line \<open>1,299 only\<close> the group is \<open>1,299\<close> and the
  returned price is \<open>1299\<close>.
\<close>

theorem extractPrice_changes_comma_group:
  "priceMatch (u ''1,299 only'') = Some (u ''1,299'')
   \<and> extractPrice (u ''1,299 only'') = u ''1299''
   \<and> extractPrice (u ''1,299 only'') \<noteq> u ''1,299''"
  by (simp add: price_eval)

text \<open>
  C10, as the code has it. Price extraction does not require the rupee sign. For every
  raw line the matched group is the first maximal digit group of the line, with its
  comma groups and its two-digit fraction, whether or not a sign precedes it. The
  returned price is that group whenever the group holds no comma, and the empty string
  when the line has no digit. A sign in front of a line changes nothing, and a leading
  number that is not a price becomes the price: \<open>32 waist jeans R999\<close>, with \<open>R\<close> the
  rupee sign, gives \<open>32\<close>.
\<close>

theorem extractPrice_takes_first_number:
  "priceMatch s =
     (if list_ex isDigit s then Some (priceGroup (dropWhile (\<lambda>c. \<not> isDigit c) s)) else None)
   \<and> (list_ex isDigit s \<and> 44 \<notin> set (priceGroup (dropWhile (\<lambda>c. \<not> isDigit c) s)) \<longrightarrow>
        extractPrice s = priceGroup (dropWhile (\<lambda>c. \<not> isDigit c) s))
   \<and> (\<not> list_ex isDigit s \<longrightarrow> extractPrice s = [])
   \<and> extractPrice (rupee # s) = extractPrice s
   \<and> extractPrice (u ''32 waist jeans '' @ [rupee] @ u ''999'') = u ''32''"
proof -
  have "extractPrice (rupee # s) = extractPrice s"
    by (simp add: extractPrice_def priceMatch_first_number rupee_not_digit
        del: priceMatch.simps)
  moreover have "extractPrice (u ''32 waist jeans '' @ [rupee] @ u ''999'') = u ''32''"
    by (simp add: price_eval)
  moreover have "list_ex isDigit s
        \<and> 44 \<notin> set (priceGroup (dropWhile (\<lambda>c. \<not> isDigit c) s)) \<longrightarrow>
        extractPrice s = priceGroup (dropWhile (\<lambda>c. \<not> isDigit c) s)"
    by (simp add: extractPrice_def priceMatch_first_number replaceComma_def remove1_idem
        del: priceMatch.simps)
  moreover have "\<not> list_ex isDigit s \<longrightarrow> extractPrice s = []"
    by (simp add: extractPrice_def priceMatch_first_number del: priceMatch.simps)
  ultimately show ?thesis
    using priceMatch_first_number [of s] by simp
qed

theorem extractPrice_takes_first_number_witness:
  "priceMatch (u ''size 42, now '' @ [rupee] @ u ''1299.00 only'') = Some (u ''42'')
   \<and> extractPrice (u ''size 42, now '' @ [rupee] @ u ''1299.00 only'') = u ''42''
   \<and> extractPrice (rupee # u ''1299.00 only'') = u ''1299.00''"
proof -
  have "extractPrice (u ''1299.00 only'') = u ''1299.00''"
    by (simp add: price_eval)
  then show ?thesis
    using extractPrice_takes_first_number [of "u ''size 42, now '' @ [rupee] @ u ''1299.00 only''"]
      extractPrice_takes_first_number [of "u ''1299.00 only''"]
    by (simp add: price_eval)
qed

section \<open>The marked price\<close>

lemmas number_eval =
  parseFloat_def strDecimal_def exponentPart_def digitsValue_def nearestDouble_def floorLog2_def
  atLeastPow2_def roundHalfEven_def orZero_def greaterZero_def times125_def toFixed2_def
  atLeast1e21_def hundredths_def fixed2_def exponentForm_def roundsTo_def
  bitLength.simps showNat.simps shortest.simps
  isDigit_def isSpace_def u_def Let_def

lemma enrichRow_price:
  "enrichRow N rawInfo row (u ''price'') =
     (if truthy (row (u ''price'')) then row (u ''price'')
      else Some (orElse (Some (extractPrice rawInfo)) (orElse (row (u ''price'')) [])))"
  by (simp add: unroll peel setIfFalsy_same)

lemma enrichRow_mrp:
  "\<not> truthy (row (u ''mrp'')) \<Longrightarrow>
   enrichRow N rawInfo row (u ''mrp'') =
     Some (if priceIsPositive N (orElse (enrichRow N rawInfo row (u ''price'')) [])
           then scaledToFixed N (orElse (enrichRow N rawInfo row (u ''price'')) [])
           else [])"
  by (simp add: unroll peel setIfFalsy_same mrpValue_def Let_def)

lemma showNat_digits: "showNat n \<noteq> [] \<and> list_all isDigit (showNat n)"
proof (induction n rule: showNat.induct)
  case (1 n)
  show ?case
  proof (cases "n < 10")
    case True
    then have "showNat n = [48 + n]" by (subst showNat.simps) simp
    with True show ?thesis by (simp add: isDigit_def)
  next
    case False
    then have eq: "showNat n = showNat (n div 10) @ [48 + n mod 10]"
      by (subst showNat.simps) simp
    have "n mod 10 < 10" by simp
    then have "isDigit (48 + n mod 10)" by (simp add: isDigit_def)
    with False 1 show ?thesis unfolding eq by simp
  qed
qed

lemma fixed2_hasTwoDecimals: "hasTwoDecimals (fixed2 n)"
proof -
  have "n mod 100 div 10 < 10" by simp
  moreover have "n mod 10 < 10" by simp
  ultimately show ?thesis
    using showNat_digits [of "n div 100"]
    by (simp add: hasTwoDecimals_def fixed2_def isDigit_def)
qed

lemma hasTwoDecimals_chars:
  assumes "hasTwoDecimals s"
  shows "\<forall>c\<in>set s. isDigit c \<or> c = 46"
proof -
  obtain d2 d1 dot whole where r: "rev s = d2 # d1 # dot # whole"
    and d: "isDigit d2" "isDigit d1" "dot = 46" "list_all isDigit whole"
    using assms unfolding hasTwoDecimals_def by (auto split: list.splits)
  have "set s = set (rev s)" by simp
  also have "\<dots> = {d2, d1, dot} \<union> set whole" unfolding r by auto
  finally show ?thesis using d by (auto simp: list_all_iff)
qed

lemma exponentForm_not_fixed: "\<not> hasTwoDecimals (exponentForm c)"
proof
  assume "hasTwoDecimals (exponentForm c)"
  then have "\<forall>x\<in>set (exponentForm c). isDigit x \<or> x = 46" by (rule hasTwoDecimals_chars)
  moreover have "101 \<in> set (exponentForm c)"
    by (simp add: exponentForm_def Let_def u_def)
  ultimately show False by (auto simp: isDigit_def)
qed

lemma hundredths_nearest:
  "(0 \<le> e \<longrightarrow> hundredths m e = 100 * m * 2 ^ nat e)
   \<and> (e < 0 \<longrightarrow> 2 * hundredths m e * 2 ^ nat (- e) \<le> 200 * m + 2 ^ nat (- e)
         \<and> 200 * m + 2 ^ nat (- e) < 2 * (hundredths m e + 1) * 2 ^ nat (- e))"
proof -
  have pos: "0 < 2 * (2::nat) ^ nat (- e)" by simp
  let ?a = "200 * m + 2 ^ nat (- e)" and ?b = "2 * (2::nat) ^ nat (- e)"
  have "(?a div ?b) * ?b \<le> ?a" by simp
  moreover have "?a < (?a div ?b + 1) * ?b"
    using pos by (metis Suc_eq_plus1 dividend_less_div_times mult.commute mult_Suc)
  ultimately show ?thesis
    by (simp add: hundredths_def algebra_simps)
qed

lemma jsNumerics_fields:
  "priceIsPositive jsNumerics p = greaterZero (orZero (parseFloat p))"
  "scaledToFixed jsNumerics p = toFixed2 (times125 (orZero (parseFloat p)))"
  by (simp_all add: jsNumerics_def)

lemma toFixed2_fixed:
  "\<not> atLeast1e21 m e \<Longrightarrow> toFixed2 (Finite False m e) = fixed2 (hundredths m e)"
  by (simp add: toFixed2_def)

lemma toFixed2_exponent:
  "atLeast1e21 m e \<Longrightarrow> \<not> hasTwoDecimals (toFixed2 (Finite False m e))"
  by (simp add: toFixed2_def exponentForm_not_fixed)

lemma price_of_empty_row:
  "orElse (enrichRow N rawInfo Map.empty (u ''price'')) [] = extractPrice rawInfo"
  by (simp add: enrichRow_price truthy_empty orElse_def)

text \<open>
  C6 as stated, that a price which parses as a positive number gives an mrp with
  exactly two decimal places, fails on a large price: for the catalog of one empty row
  and the raw line \<open>1000000000000000000000\<close> the price is that string, a positive
  number, its product with 1.25 is \<open>1.25 * 10^21\<close>, and \<^verbatim>\<open>toFixed(2)\<close> prints numbers
  from \<open>10^21\<close> on in exponent form: the mrp is \<open>1.25e+21\<close>.
\<close>

theorem mrp_of_large_price_is_not_fixed:
  "(enrich jsNumerics [Map.empty] (u ''1000000000000000000000'') ! 0) (u ''price'')
     = Some (u ''1000000000000000000000'')
   \<and> greaterZero (parseFloat (u ''1000000000000000000000''))
   \<and> (enrich jsNumerics [Map.empty] (u ''1000000000000000000000'') ! 0) (u ''mrp'')
     = Some (u ''1.25e+21'')
   \<and> \<not> hasTwoDecimals (u ''1.25e+21'')"
proof -
  let ?raw = "u ''1000000000000000000000''"
  have info: "rawInfoAt (rawLinesOf ?raw) 0 = ?raw"
    by (simp add: lines_eval rawInfoAt_def elemAt_def orElse_def)
  have row: "enrich jsNumerics [Map.empty] ?raw ! 0 = enrichRow jsNumerics ?raw Map.empty"
    by (simp add: enrich_nth info)
  have price: "extractPrice ?raw = ?raw"
    by (simp add: price_eval)
  have parsed: "parseFloat ?raw = Finite False 7629394531250000 17"
    by (simp add: number_eval)
  have product: "times125 (Finite False 7629394531250000 17) = Finite False 4768371582031250 18"
    by (simp add: number_eval)
  have printed: "toFixed2 (Finite False 4768371582031250 18) = u ''1.25e+21''"
    by (simp add: number_eval)
  have shape: "\<not> hasTwoDecimals (u ''1.25e+21'')"
    by (simp add: hasTwoDecimals_def isDigit_def u_def)
  have "?raw \<noteq> []"
    by (simp add: u_def)
  then have "enrichRow jsNumerics ?raw Map.empty (u ''price'') = Some ?raw"
    by (simp add: enrichRow_price truthy_empty orElse_def price)
  moreover have "enrichRow jsNumerics ?raw Map.empty (u ''mrp'') = Some (u ''1.25e+21'')"
    by (simp add: enrichRow_mrp truthy_empty price_of_empty_row jsNumerics_fields price parsed)
      (simp add: orZero_def greaterZero_def product printed)
  moreover have "greaterZero (parseFloat ?raw)"
    by (simp add: parsed greaterZero_def)
  ultimately show ?thesis
    unfolding row using shape by simp
qed

text \<open>
  C6, as the code has it. For every row whose input \<open>mrp\<close> is absent or empty, with
  \<open>p\<close> the double that \<^verbatim>\<open>parseFloat\<close> reads from the price of the output row: when \<open>p\<close>
  is not a number or not positive the output \<open>mrp\<close> is the empty string, for the numbers
  of JavaScript and for any other; when \<open>p\<close> is positive the output \<open>mrp\<close> is
  \<^verbatim>\<open>toFixed(2)\<close> of the double product of \<open>p\<close> and 1.25. When that product is finite and
  below \<open>10^21\<close>, this is a string with exactly two decimal places, made of the digits
  of the integer nearest to a hundred times the product, the larger of two; the
  rounding is on the binary value of the product, so the price \<open>1.02\<close> gives \<open>1.27\<close>.
  When the product is \<open>10^21\<close> or more the \<open>mrp\<close> has no two decimal places, and when it is
  infinite the \<open>mrp\<close> is \<open>Infinity\<close>.
\<close>

theorem mrp_follows_price:
  "(\<not> truthy (row (u ''mrp''))
      \<and> \<not> priceIsPositive N (orElse (enrichRow N rawInfo row (u ''price'')) [])
      \<longrightarrow> enrichRow N rawInfo row (u ''mrp'') = Some [])
   \<and> (\<not> truthy (row (u ''mrp'')) \<longrightarrow>
        (let p = orZero (parseFloat (orElse (enrichRow jsNumerics rawInfo row (u ''price'')) []));
             mrp = enrichRow jsNumerics rawInfo row (u ''mrp'')
         in (\<not> greaterZero p \<longrightarrow> mrp = Some [])
          \<and> (greaterZero p \<longrightarrow> mrp = Some (toFixed2 (times125 p)))
          \<and> (\<forall>m e. greaterZero p \<and> times125 p = Finite False m e \<and> \<not> atLeast1e21 m e \<longrightarrow>
                mrp = Some (fixed2 (hundredths m e))
                \<and> hasTwoDecimals (fixed2 (hundredths m e))
                \<and> (0 \<le> e \<longrightarrow> hundredths m e = 100 * m * 2 ^ nat e)
                \<and> (e < 0 \<longrightarrow>
                      2 * hundredths m e * 2 ^ nat (- e) \<le> 200 * m + 2 ^ nat (- e)
                      \<and> 200 * m + 2 ^ nat (- e) < 2 * (hundredths m e + 1) * 2 ^ nat (- e)))
          \<and> (\<forall>m e. greaterZero p \<and> times125 p = Finite False m e \<and> atLeast1e21 m e \<longrightarrow>
                (\<forall>s. mrp = Some s \<longrightarrow> \<not> hasTwoDecimals s))
          \<and> (greaterZero p \<and> times125 p = Infinite False \<longrightarrow> mrp = Some (u ''Infinity''))))"
proof -
  have general: "\<not> truthy (row (u ''mrp''))
      \<and> \<not> priceIsPositive N (orElse (enrichRow N rawInfo row (u ''price'')) [])
      \<longrightarrow> enrichRow N rawInfo row (u ''mrp'') = Some []"
    by (simp add: enrichRow_mrp)
  have js: "\<not> truthy (row (u ''mrp'')) \<longrightarrow>
        (let p = orZero (parseFloat (orElse (enrichRow jsNumerics rawInfo row (u ''price'')) []));
             mrp = enrichRow jsNumerics rawInfo row (u ''mrp'')
         in (\<not> greaterZero p \<longrightarrow> mrp = Some [])
          \<and> (greaterZero p \<longrightarrow> mrp = Some (toFixed2 (times125 p)))
          \<and> (\<forall>m e. greaterZero p \<and> times125 p = Finite False m e \<and> \<not> atLeast1e21 m e \<longrightarrow>
                mrp = Some (fixed2 (hundredths m e))
                \<and> hasTwoDecimals (fixed2 (hundredths m e))
                \<and> (0 \<le> e \<longrightarrow> hundredths m e = 100 * m * 2 ^ nat e)
                \<and> (e < 0 \<longrightarrow>
                      2 * hundredths m e * 2 ^ nat (- e) \<le> 200 * m + 2 ^ nat (- e)
                      \<and> 200 * m + 2 ^ nat (- e) < 2 * (hundredths m e + 1) * 2 ^ nat (- e)))
          \<and> (\<forall>m e. greaterZero p \<and> times125 p = Finite False m e \<and> atLeast1e21 m e \<longrightarrow>
                (\<forall>s. mrp = Some s \<longrightarrow> \<not> hasTwoDecimals s))
          \<and> (greaterZero p \<and> times125 p = Infinite False \<longrightarrow> mrp = Some (u ''Infinity'')))"
  proof
    assume no: "\<not> truthy (row (u ''mrp''))"
    let ?p = "orZero (parseFloat (orElse (enrichRow jsNumerics rawInfo row (u ''price'')) []))"
    have mrp: "enrichRow jsNumerics rawInfo row (u ''mrp'')
        = Some (if greaterZero ?p then toFixed2 (times125 ?p) else [])"
      using no by (simp add: enrichRow_mrp jsNumerics_fields)
    have inf: "toFixed2 (Infinite False) = u ''Infinity''"
      by (simp add: toFixed2_def)
    show "let p = ?p; mrp = enrichRow jsNumerics rawInfo row (u ''mrp'')
         in (\<not> greaterZero p \<longrightarrow> mrp = Some [])
          \<and> (greaterZero p \<longrightarrow> mrp = Some (toFixed2 (times125 p)))
          \<and> (\<forall>m e. greaterZero p \<and> times125 p = Finite False m e \<and> \<not> atLeast1e21 m e \<longrightarrow>
                mrp = Some (fixed2 (hundredths m e))
                \<and> hasTwoDecimals (fixed2 (hundredths m e))
                \<and> (0 \<le> e \<longrightarrow> hundredths m e = 100 * m * 2 ^ nat e)
                \<and> (e < 0 \<longrightarrow>
                      2 * hundredths m e * 2 ^ nat (- e) \<le> 200 * m + 2 ^ nat (- e)
                      \<and> 200 * m + 2 ^ nat (- e) < 2 * (hundredths m e + 1) * 2 ^ nat (- e)))
          \<and> (\<forall>m e. greaterZero p \<and> times125 p = Finite False m e \<and> atLeast1e21 m e \<longrightarrow>
                (\<forall>s. mrp = Some s \<longrightarrow> \<not> hasTwoDecimals s))
          \<and> (greaterZero p \<and> times125 p = Infinite False \<longrightarrow> mrp = Some (u ''Infinity''))"
      unfolding Let_def mrp
      using toFixed2_fixed toFixed2_exponent fixed2_hasTwoDecimals inf hundredths_nearest
      by auto
  qed
  show ?thesis
    using general js by blast
qed

theorem mrp_follows_price_witness:
  "enrichRow jsNumerics (rupee # u ''1.02'') Map.empty (u ''mrp'') = Some (u ''1.27'')
   \<and> hasTwoDecimals (u ''1.27'')
   \<and> enrichRow jsNumerics (u ''no price here'') Map.empty (u ''mrp'') = Some []"
proof -
  note priced =
    mrp_follows_price [where row = Map.empty and N = jsNumerics and rawInfo = "rupee # u ''1.02''",
      unfolded Let_def price_of_empty_row, THEN conjunct2, THEN mp, OF truthy_empty]
  note unpriced =
    mrp_follows_price [where row = Map.empty and N = jsNumerics and rawInfo = "u ''no price here''",
      unfolded Let_def price_of_empty_row, THEN conjunct2, THEN mp, OF truthy_empty]
  have price: "extractPrice (rupee # u ''1.02'') = u ''1.02''"
    by (simp add: price_eval)
  have parsed: "orZero (parseFloat (u ''1.02'')) = Finite False 4593671619917906 (- 52)"
    by (simp add: number_eval)
  have product: "times125 (Finite False 4593671619917906 (- 52))
      = Finite False 5742089524897382 (- 52)"
    by (simp add: number_eval)
  have small: "\<not> atLeast1e21 5742089524897382 (- 52)"
    by (simp add: atLeast1e21_def)
  have printed: "fixed2 (hundredths 5742089524897382 (- 52)) = u ''1.27''"
    by (simp add: number_eval)
  have positive: "greaterZero (Finite False 4593671619917906 (- 52))"
    by (simp add: greaterZero_def)
  have none: "extractPrice (u ''no price here'') = []"
    by (simp add: price_eval)
  have nan: "\<not> greaterZero (orZero (parseFloat []))"
    by (simp add: number_eval)
  from priced [unfolded price parsed, THEN conjunct2, THEN conjunct2, THEN conjunct1,
      THEN spec, THEN spec, THEN mp, OF conjI [OF positive conjI [OF product small]]]
  have "enrichRow jsNumerics (rupee # u ''1.02'') Map.empty (u ''mrp'') = Some (u ''1.27'')"
    and "hasTwoDecimals (u ''1.27'')"
    unfolding printed by simp_all
  moreover from unpriced [unfolded none, THEN conjunct1, THEN mp, OF nan]
  have "enrichRow jsNumerics (u ''no price here'') Map.empty (u ''mrp'') = Some []" .
  ultimately show ?thesis by simp
qed

section \<open>The synthesized description\<close>

text \<open>
  C5. When the row has neither \<open>description\<close> nor \<open>desc\<close>, the description is
  synthesized from the input row alone: \<open>Premium\<close>, then the brand and the category of
  the input row, or \<open>Quality\<close> and \<open>product\<close> where the input row has none, then its
  color and material, then the first 200 code units of the raw line. The brand and the
  category that the same pass extracts from the raw line afterwards do not enter it: for
  the empty row the description starts with \<open>Premium Quality product\<close> whatever the raw
  line holds, while the output brand and category are the extracted ones.
\<close>

theorem description_uses_input_row:
  "(\<not> truthy (row (u ''description'')) \<and> \<not> truthy (row (u ''desc'')) \<longrightarrow>
      enrichRow N rawInfo row (u ''description'') =
        Some (u ''Premium '' @ orElse (row (u ''brand'')) (u ''Quality'') @ u '' ''
              @ orElse (row (u ''category'')) (u ''product'')
              @ (if truthy (row (u ''color''))
                 then u '' in '' @ orElse (row (u ''color'')) [] @ u '' color'' else [])
              @ (if truthy (row (u ''material''))
                 then u '' made with '' @ orElse (row (u ''material'')) [] else [])
              @ u ''. '' @ take 200 rawInfo))
   \<and> enrichRow N rawInfo Map.empty (u ''description'')
       = Some (u ''Premium Quality product. '' @ take 200 rawInfo)
   \<and> enrichRow N rawInfo Map.empty (u ''brand'') = Some (extractBrand rawInfo Map.empty)
   \<and> enrichRow N rawInfo Map.empty (u ''category'') = Some (extractCategory rawInfo Map.empty)"
proof -
  have "enrichRow N rawInfo Map.empty (u ''description'')
       = Some (u ''Premium Quality product. '' @ take 200 rawInfo)"
    by (simp add: enrichRow_description truthy_empty generateDescription_synthesized
        orElse_falsy u_append u_append_left)
  then show ?thesis
    by (simp add: enrichRow_description generateDescription_synthesized
        enrichRow_brand enrichRow_category truthy_empty)
qed

theorem description_uses_input_row_witness:
  "enrichRow jsNumerics (u ''Nike T-Shirt'') Map.empty (u ''description'')
     = Some (u ''Premium Quality product. Nike T-Shirt'')
   \<and> enrichRow jsNumerics (u ''Nike T-Shirt'') Map.empty (u ''brand'') = Some (u ''Nike'')
   \<and> enrichRow jsNumerics (u ''Nike T-Shirt'') [u ''brand'' \<mapsto> u ''Puma''] (u ''description'')
     = Some (u ''Premium Puma product. Nike T-Shirt'')"
proof -
  have "extractBrand (u ''Nike T-Shirt'') Map.empty = u ''Nike''"
    by (simp add: vocabulary_eval)
  moreover have "\<not> truthy ([u ''brand'' \<mapsto> u ''Puma''] (u ''description''))"
    and "\<not> truthy ([u ''brand'' \<mapsto> u ''Puma''] (u ''desc''))"
    by (simp_all add: truthy_def u_inj)
  ultimately show ?thesis
    using description_uses_input_row [of "Map.empty" jsNumerics "u ''Nike T-Shirt''"]
      description_uses_input_row [of "[u ''brand'' \<mapsto> u ''Puma'']" jsNumerics "u ''Nike T-Shirt''"]
    by (simp add: truthy_def orElse_def u_def)
qed

section \<open>Pairing of rows and raw lines\<close>

text \<open>
  C7. For every accepted request, row \<open>i\<close> is enriched with the raw line
  \<open>rawLines[i]\<close> when that index exists, otherwise with \<open>rawLines[0]\<close> when there is a
  line, otherwise with the empty string, where \<open>rawLines\<close> are the lines of the raw data
  that are not blank after trimming. With exactly two such lines and five rows, the
  rows 2, 3 and 4 all use \<open>rawLines[0]\<close>.
\<close>

theorem raw_line_pairing:
  assumes "POST N (Some catalog) (Some rawData) = Success enrichedCatalog"
    and "i < length catalog"
  shows "enrichedCatalog ! i = enrichRow N (rawInfoAt (rawLinesOf rawData) i) (catalog ! i)
    \<and> rawInfoAt (rawLinesOf rawData) i =
        (if i < length (rawLinesOf rawData) then rawLinesOf rawData ! i
         else if rawLinesOf rawData \<noteq> [] then rawLinesOf rawData ! 0 else [])
    \<and> (length (rawLinesOf rawData) = 2 \<and> length catalog = 5 \<longrightarrow>
         enrichedCatalog ! 2 = enrichRow N (rawLinesOf rawData ! 0) (catalog ! 2)
         \<and> enrichedCatalog ! 3 = enrichRow N (rawLinesOf rawData ! 0) (catalog ! 3)
         \<and> enrichedCatalog ! 4 = enrichRow N (rawLinesOf rawData ! 0) (catalog ! 4))"
proof -
  have out: "enrichedCatalog = enrich N catalog rawData"
    using assms(1) by (rule POST_accepted)
  have pair: "rawInfoAt (rawLinesOf rawData) j =
        (if j < length (rawLinesOf rawData) then rawLinesOf rawData ! j
         else if rawLinesOf rawData \<noteq> [] then rawLinesOf rawData ! 0 else [])" for j
    by (rule rawInfoAt_lines) (rule rawLines_nonempty)
  have row: "enrichedCatalog ! j = enrichRow N (rawInfoAt (rawLinesOf rawData) j) (catalog ! j)"
    if "j < length catalog" for j
    using that by (simp add: out enrich_nth)
  have "length (rawLinesOf rawData) = 2 \<and> length catalog = 5 \<longrightarrow>
         enrichedCatalog ! 2 = enrichRow N (rawLinesOf rawData ! 0) (catalog ! 2)
         \<and> enrichedCatalog ! 3 = enrichRow N (rawLinesOf rawData ! 0) (catalog ! 3)
         \<and> enrichedCatalog ! 4 = enrichRow N (rawLinesOf rawData ! 0) (catalog ! 4)"
    using pair [of 2] pair [of 3] pair [of 4] row [of 2] row [of 3] row [of 4] by auto
  then show ?thesis using pair [of i] row [OF assms(2)] by simp
qed

theorem raw_line_pairing_witness:
  "enrich jsNumerics (replicate 5 Map.empty) (u ''one'' @ [nl] @ u '' '' @ [nl] @ u ''two'') ! 3
     = enrichRow jsNumerics (u ''one'') Map.empty"
proof -
  let ?rawData = "u ''one'' @ [nl] @ u '' '' @ [nl] @ u ''two''"
  have lines: "rawLinesOf ?rawData = [u ''one'', u ''two'']"
    by (simp add: lines_eval)
  have "POST jsNumerics (Some (replicate 5 Map.empty)) (Some ?rawData)
      = Success (enrich jsNumerics (replicate 5 Map.empty) ?rawData)"
    by (rule POST_Success) (simp_all add: u_def)
  from raw_line_pairing [OF this, of 3] show ?thesis
    unfolding lines by simp
qed

text \<open>
  C8. For every accepted request the enriched catalog has the length of the input
  catalog, and its row at each index is the enrichment of the input row at that index:
  the order is kept, and no row is added or dropped.
\<close>

theorem rows_in_order:
  assumes "POST N (Some catalog) (Some rawData) = Success enrichedCatalog"
  shows "length enrichedCatalog = length catalog
    \<and> (\<forall>i<length catalog.
          enrichedCatalog ! i = enrichRow N (rawInfoAt (rawLinesOf rawData) i) (catalog ! i))"
  using POST_accepted(3) [OF assms] by (simp add: enrich_length enrich_nth)

theorem rows_in_order_witness:
  "length (enrich jsNumerics [Map.empty, [u ''title'' \<mapsto> u ''Red Dress'']] (u ''some text'')) = 2
   \<and> enrich jsNumerics [Map.empty, [u ''title'' \<mapsto> u ''Red Dress'']] (u ''some text'') ! 1
     = enrichRow jsNumerics (u ''some text'') [u ''title'' \<mapsto> u ''Red Dress'']"
proof -
  let ?catalog = "[Map.empty, [u ''title'' \<mapsto> u ''Red Dress'']]"
  have info: "rawInfoAt (rawLinesOf (u ''some text'')) (Suc 0) = u ''some text''"
    by (simp add: lines_eval rawInfoAt_def elemAt_def orElse_def)
  have "POST jsNumerics (Some ?catalog) (Some (u ''some text''))
      = Success (enrich jsNumerics ?catalog (u ''some text''))"
    by (rule POST_Success) (simp_all add: u_def)
  from rows_in_order [OF this] show ?thesis
    by (simp add: info)
qed

section \<open>Platform fields come before the attributes\<close>

lemma orElse_of_orElse: "orElse (Some (orElse v [])) [] = orElse v []"
  by (simp add: orElse_def split: option.splits)

lemma orElse_None: "orElse None d = d"
  by (simp add: orElse_def)

lemma enrichRow_platform_description:
  assumes "\<not> truthy (row (u ''brand''))" and "\<not> truthy (row (u ''material''))"
    and "p \<in> set platforms" and "\<not> truthy (row (p @ u ''_description''))"
  shows "enrichRow N rawInfo row (p @ u ''_description'')
     = Some (generatePlatformDescription p
         [u ''description'' \<mapsto> orElse (enrichRow N rawInfo row (u ''description'')) []] rawInfo)"
  using assms(3,4,1,2) unfolding platforms_def
  by (simp add: u_append)
    (elim disjE,
      simp_all add: unroll peel setIfFalsy_same generatePlatformDescription_def orElse_falsy
        orElse_of_orElse orElse_None)

lemma platform_descriptions_of_row:
  assumes "\<not> truthy (row (u ''brand''))" and "\<not> truthy (row (u ''material''))"
    and "\<forall>p\<in>set platforms. \<not> truthy (row (p @ u ''_description''))"
  shows "\<forall>p\<in>set platforms.
      enrichRow N rawInfo row (p @ u ''_description'')
        = Some (generatePlatformDescription p
            [u ''description'' \<mapsto> orElse (enrichRow N rawInfo row (u ''description'')) []]
            rawInfo)"
  using assms by (blast intro: enrichRow_platform_description)

lemma sample_description:
  "enrichRow N sampleLine Map.empty (u ''amazon_description'')
     = Some (u ''Premium Quality product. '' @ sampleLine @ [nl, nl] @ u ''Key Features:''
         @ [nl, bullet] @ u '' Premium Quality'' @ [nl, bullet] @ u ''  Brand''
         @ [nl, bullet] @ u ''  Material'' @ [nl, bullet] @ u '' Fast Delivery Available'')"
proof -
  have short: "take 200 sampleLine = sampleLine"
    by (simp add: sampleLine_def u_def)
  have amazon: "u ''amazon'' \<in> set platforms"
    by (simp add: platforms_def)
  have "enrichRow N sampleLine Map.empty (u ''amazon'' @ u ''_description'')
     = Some (generatePlatformDescription (u ''amazon'')
         [u ''description'' \<mapsto> orElse (enrichRow N sampleLine Map.empty (u ''description'')) []]
         sampleLine)"
    using amazon by (rule enrichRow_platform_description [rotated 2]) (simp_all add: truthy_empty)
  moreover have "orElse (enrichRow N sampleLine Map.empty (u ''description'')) []
      = u ''Premium Quality product. '' @ sampleLine"
    by (simp add: enrichRow_description truthy_empty generateDescription_synthesized
        orElse_falsy u_append u_append_left short)
      (simp add: orElse_def u_def)
  ultimately show ?thesis
    by (simp add: generatePlatformDescription_def u_append u_inj orElse_None)
      (simp add: orElse_def u_def)
qed

lemma platform_fields_of_row:
  assumes "\<forall>key\<in>set [u ''brand'', u ''category'', u ''color'', u ''size'', u ''material''].
             \<not> truthy (row key)"
    and "\<forall>p\<in>set platforms. \<not> truthy (row (p @ u ''_title'')) \<and> \<not> truthy (row (p @ u ''_keywords''))"
  shows "(\<forall>p\<in>set platforms.
            enrichRow N rawInfo row (p @ u ''_keywords'')
              = Some (u ''quality, premium, best, latest, trending''))
    \<and> (let base = orElse (enrichRow N rawInfo row (u ''product_title''))
                     (orElse (row (u ''title'')) (u ''Product''))
       in enrichRow N rawInfo row (u ''amazon_title'') = Some (tidy (u '' '' @ base @ u ''  ''))
        \<and> enrichRow N rawInfo row (u ''flipkart_title'') = Some (tidy (base @ u '' () - ''))
        \<and> enrichRow N rawInfo row (u ''meesho_title'') = Some (tidy (base @ u ''  ''))
        \<and> enrichRow N rawInfo row (u ''myntra_title'') = Some (tidy (u ''  '' @ base)))
    \<and> enrichRow N rawInfo row (u ''brand'') = Some (extractBrand rawInfo row)
    \<and> enrichRow N rawInfo row (u ''category'') = Some (extractCategory rawInfo row)
    \<and> enrichRow N rawInfo row (u ''color'') = Some (extractColor rawInfo row)
    \<and> enrichRow N rawInfo row (u ''size'') = Some (extractSize rawInfo row)
    \<and> enrichRow N rawInfo row (u ''material'') = Some (extractMaterial rawInfo row)"
proof -
  have attrs: "\<not> truthy (row (u ''brand''))" "\<not> truthy (row (u ''category''))"
    "\<not> truthy (row (u ''color''))" "\<not> truthy (row (u ''size''))"
    "\<not> truthy (row (u ''material''))"
    using assms(1) by simp_all
  have titles: "\<not> truthy (row (u ''amazon_title''))" "\<not> truthy (row (u ''flipkart_title''))"
    "\<not> truthy (row (u ''meesho_title''))" "\<not> truthy (row (u ''myntra_title''))"
    using assms(2) by (simp_all add: platforms_def u_append)
  have "\<forall>p\<in>set platforms.
            enrichRow N rawInfo row (p @ u ''_keywords'')
              = Some (u ''quality, premium, best, latest, trending'')"
    using assms(2) attrs by (blast intro: enrichRow_keywords)
  then show ?thesis
    unfolding Let_def
    using attrs titles
    by (simp add: enrichRow_platform_titles enrichRow_brand enrichRow_category enrichRow_color
        enrichRow_size enrichRow_material)
qed

text \<open>
  C9. The twelve platform fields are assigned before brand, category, color, size and
  material are extracted. For an input row without these attributes and without the
  platform titles and keywords, the keywords of every platform are the five fixed
  words, and every platform title is its template with empty brand, color and size
  around the base title; for an input row without brand, material and platform
  descriptions, every platform description is built from the description alone, with
  empty brand and material; and the same output row holds the brand, category, color,
  size and material extracted from the raw line. For the catalog of one empty row and
  the sample raw line, the keywords of every platform are
  \<open>quality, premium, best, latest, trending\<close>, which hold neither \<open>Nike\<close> nor \<open>Blue\<close>, and
  the description for amazon has nothing before \<open>Brand\<close> and \<open>Material\<close>, while the brand
  of the output row is \<open>Nike\<close> and its color is \<open>Blue\<close>.
\<close>

theorem platform_fields_precede_attributes:
  "((\<forall>key\<in>set [u ''brand'', u ''category'', u ''color'', u ''size'', u ''material''].
        \<not> truthy (row key))
    \<and> (\<forall>p\<in>set platforms.
          \<not> truthy (row (p @ u ''_title'')) \<and> \<not> truthy (row (p @ u ''_keywords''))) \<longrightarrow>
      (\<forall>p\<in>set platforms.
          enrichRow N rawInfo row (p @ u ''_keywords'')
            = Some (u ''quality, premium, best, latest, trending''))
      \<and> (let base = orElse (enrichRow N rawInfo row (u ''product_title''))
                       (orElse (row (u ''title'')) (u ''Product''))
         in enrichRow N rawInfo row (u ''amazon_title'') = Some (tidy (u '' '' @ base @ u ''  ''))
          \<and> enrichRow N rawInfo row (u ''flipkart_title'') = Some (tidy (base @ u '' () - ''))
          \<and> enrichRow N rawInfo row (u ''meesho_title'') = Some (tidy (base @ u ''  ''))
          \<and> enrichRow N rawInfo row (u ''myntra_title'') = Some (tidy (u ''  '' @ base)))
      \<and> enrichRow N rawInfo row (u ''brand'') = Some (extractBrand rawInfo row)
      \<and> enrichRow N rawInfo row (u ''category'') = Some (extractCategory rawInfo row)
      \<and> enrichRow N rawInfo row (u ''color'') = Some (extractColor rawInfo row)
      \<and> enrichRow N rawInfo row (u ''size'') = Some (extractSize rawInfo row)
      \<and> enrichRow N rawInfo row (u ''material'') = Some (extractMaterial rawInfo row))
   \<and> (\<not> truthy (row (u ''brand'')) \<and> \<not> truthy (row (u ''material''))
      \<and> (\<forall>p\<in>set platforms. \<not> truthy (row (p @ u ''_description''))) \<longrightarrow>
      (\<forall>p\<in>set platforms.
          enrichRow N rawInfo row (p @ u ''_description'')
            = Some (generatePlatformDescription p
                [u ''description'' \<mapsto> orElse (enrichRow N rawInfo row (u ''description'')) []]
                rawInfo))
      \<and> enrichRow N rawInfo row (u ''brand'') = Some (extractBrand rawInfo row)
      \<and> enrichRow N rawInfo row (u ''material'') = Some (extractMaterial rawInfo row))
   \<and> (\<forall>p\<in>set platforms.
         (enrich N [Map.empty] sampleLine ! 0) (p @ u ''_keywords'')
           = Some (u ''quality, premium, best, latest, trending''))
   \<and> \<not> strIncludes (u ''quality, premium, best, latest, trending'') (u ''Nike'')
   \<and> \<not> strIncludes (u ''quality, premium, best, latest, trending'') (u ''Blue'')
   \<and> (enrich N [Map.empty] sampleLine ! 0) (u ''amazon_description'')
       = Some (u ''Premium Quality product. '' @ sampleLine @ [nl, nl] @ u ''Key Features:''
           @ [nl, bullet] @ u '' Premium Quality'' @ [nl, bullet] @ u ''  Brand''
           @ [nl, bullet] @ u ''  Material'' @ [nl, bullet] @ u '' Fast Delivery Available'')
   \<and> (enrich N [Map.empty] sampleLine ! 0) (u ''brand'') = Some (u ''Nike'')
   \<and> (enrich N [Map.empty] sampleLine ! 0) (u ''color'') = Some (u ''Blue'')"
proof -
  have info: "rawInfoAt (rawLinesOf sampleLine) 0 = sampleLine"
    by (simp add: sampleLine_def lines_eval rawInfoAt_def elemAt_def orElse_def rupee_def)
  have row: "enrich N [Map.empty] sampleLine ! 0 = enrichRow N sampleLine Map.empty"
    by (simp add: enrich_nth info)
  have sample: "extractBrand sampleLine Map.empty = u ''Nike''"
    "extractColor sampleLine Map.empty = u ''Blue''"
    by (simp_all add: sampleLine_def vocabulary_eval)
  have words: "\<not> strIncludes (u ''quality, premium, best, latest, trending'') (u ''Nike'')"
    "\<not> strIncludes (u ''quality, premium, best, latest, trending'') (u ''Blue'')"
    by (simp_all add: u_def)
  have example: "(\<forall>p\<in>set platforms.
         (enrich N [Map.empty] sampleLine ! 0) (p @ u ''_keywords'')
           = Some (u ''quality, premium, best, latest, trending''))
     \<and> \<not> strIncludes (u ''quality, premium, best, latest, trending'') (u ''Nike'')
     \<and> \<not> strIncludes (u ''quality, premium, best, latest, trending'') (u ''Blue'')
     \<and> (enrich N [Map.empty] sampleLine ! 0) (u ''amazon_description'')
         = Some (u ''Premium Quality product. '' @ sampleLine @ [nl, nl] @ u ''Key Features:''
             @ [nl, bullet] @ u '' Premium Quality'' @ [nl, bullet] @ u ''  Brand''
             @ [nl, bullet] @ u ''  Material'' @ [nl, bullet] @ u '' Fast Delivery Available'')
     \<and> (enrich N [Map.empty] sampleLine ! 0) (u ''brand'') = Some (u ''Nike'')
     \<and> (enrich N [Map.empty] sampleLine ! 0) (u ''color'') = Some (u ''Blue'')"
    unfolding row sample_description
    using platform_fields_of_row [of Map.empty N sampleLine] sample words
    by (simp add: truthy_empty)
  have descriptions: "\<not> truthy (row (u ''brand'')) \<and> \<not> truthy (row (u ''material''))
      \<and> (\<forall>p\<in>set platforms. \<not> truthy (row (p @ u ''_description''))) \<longrightarrow>
      (\<forall>p\<in>set platforms.
          enrichRow N rawInfo row (p @ u ''_description'')
            = Some (generatePlatformDescription p
                [u ''description'' \<mapsto> orElse (enrichRow N rawInfo row (u ''description'')) []]
                rawInfo))
      \<and> enrichRow N rawInfo row (u ''brand'') = Some (extractBrand rawInfo row)
      \<and> enrichRow N rawInfo row (u ''material'') = Some (extractMaterial rawInfo row)"
    using platform_descriptions_of_row [of row N rawInfo]
    by (simp add: enrichRow_brand enrichRow_material)
  show ?thesis
  proof (rule conjI [OF _ conjI [OF descriptions example]], rule impI, elim conjE)
    assume "\<forall>key\<in>set [u ''brand'', u ''category'', u ''color'', u ''size'', u ''material''].
        \<not> truthy (row key)"
      and "\<forall>p\<in>set platforms.
          \<not> truthy (row (p @ u ''_title'')) \<and> \<not> truthy (row (p @ u ''_keywords''))"
    then show "(\<forall>p\<in>set platforms.
          enrichRow N rawInfo row (p @ u ''_keywords'')
            = Some (u ''quality, premium, best, latest, trending''))
      \<and> (let base = orElse (enrichRow N rawInfo row (u ''product_title''))
                       (orElse (row (u ''title'')) (u ''Product''))
         in enrichRow N rawInfo row (u ''amazon_title'') = Some (tidy (u '' '' @ base @ u ''  ''))
          \<and> enrichRow N rawInfo row (u ''flipkart_title'') = Some (tidy (base @ u '' () - ''))
          \<and> enrichRow N rawInfo row (u ''meesho_title'') = Some (tidy (base @ u ''  ''))
          \<and> enrichRow N rawInfo row (u ''myntra_title'') = Some (tidy (u ''  '' @ base)))
      \<and> enrichRow N rawInfo row (u ''brand'') = Some (extractBrand rawInfo row)
      \<and> enrichRow N rawInfo row (u ''category'') = Some (extractCategory rawInfo row)
      \<and> enrichRow N rawInfo row (u ''color'') = Some (extractColor rawInfo row)
      \<and> enrichRow N rawInfo row (u ''size'') = Some (extractSize rawInfo row)
      \<and> enrichRow N rawInfo row (u ''material'') = Some (extractMaterial rawInfo row)"
      by (rule platform_fields_of_row)
  qed
qed

theorem platform_fields_precede_attributes_witness:
  "enrichRow jsNumerics (u ''Adidas black shoes'') [u ''title'' \<mapsto> u ''Red Dress'']
     (u ''flipkart_title'') = Some (u ''Red Dress () -'')
   \<and> enrichRow jsNumerics (u ''Adidas black shoes'') [u ''title'' \<mapsto> u ''Red Dress'']
     (u ''myntra_keywords'') = Some (u ''quality, premium, best, latest, trending'')
   \<and> enrichRow jsNumerics (u ''Adidas black shoes'') [u ''title'' \<mapsto> u ''Red Dress'']
     (u ''flipkart_description'')
       = Some (u ''Premium Quality product. Adidas black shoes'' @ [nl, nl]
           @ u ''Specifications:'' @ [nl] @ u ''- Brand: '' @ [nl] @ u ''- Material: ''
           @ [nl] @ u ''- Quality Assured'')
   \<and> enrichRow jsNumerics (u ''Adidas black shoes'') [u ''title'' \<mapsto> u ''Red Dress'']
     (u ''brand'') = Some (u ''Adidas'')
   \<and> enrichRow jsNumerics (u ''Adidas black shoes'') [u ''title'' \<mapsto> u ''Red Dress'']
     (u ''color'') = Some (u ''Black'')"
proof -
  let ?row = "[u ''title'' \<mapsto> u ''Red Dress'']"
  let ?raw = "u ''Adidas black shoes''"
  let ?base = "orElse (enrichRow jsNumerics ?raw ?row (u ''product_title''))
      (orElse (?row (u ''title'')) (u ''Product''))"
  note general =
    platform_fields_precede_attributes [of ?row jsNumerics ?raw, unfolded Let_def]
  have hyps: "\<forall>key\<in>set [u ''brand'', u ''category'', u ''color'', u ''size'', u ''material''].
        \<not> truthy (?row key)"
    "\<forall>p\<in>set platforms.
        \<not> truthy (?row (p @ u ''_title'')) \<and> \<not> truthy (?row (p @ u ''_keywords''))"
    by (simp_all add: platforms_def u_append u_inj truthy_def)
  have bare: "\<not> truthy (?row (u ''brand'')) \<and> \<not> truthy (?row (u ''material''))
      \<and> (\<forall>p\<in>set platforms. \<not> truthy (?row (p @ u ''_description'')))"
    by (simp add: platforms_def u_append u_inj truthy_def)
  have myntra: "u ''myntra'' \<in> set platforms" and flipkart: "u ''flipkart'' \<in> set platforms"
    by (simp_all add: platforms_def)
  note row_facts = general [THEN conjunct1, THEN mp, OF conjI, OF hyps]
  note title = row_facts [THEN conjunct2, THEN conjunct1, THEN conjunct2, THEN conjunct1]
  note brand = row_facts [THEN conjunct2, THEN conjunct2, THEN conjunct1]
  note color =
    row_facts [THEN conjunct2, THEN conjunct2, THEN conjunct2, THEN conjunct2, THEN conjunct1]
  note words = row_facts [THEN conjunct1, THEN bspec, OF myntra]
  note described =
    general [THEN conjunct2, THEN conjunct1, THEN mp, OF bare, THEN conjunct1, THEN bspec,
      OF flipkart]
  have base: "?base = u ''Red Dress''"
    by (simp add: enrichRow_title generateTitle_title truthy_def orElse_def u_inj)
      (simp add: u_def)
  have tidied: "tidy (u ''Red Dress'' @ u '' () - '') = u ''Red Dress () -''"
    by (simp add: tidy_def trim_def isSpace_def u_def)
  have sample: "extractBrand ?raw ?row = u ''Adidas''" "extractColor ?raw ?row = u ''Black''"
    by (simp_all add: vocabulary_eval)
  have short: "take 200 ?raw = ?raw"
    by (simp add: u_def)
  have description: "orElse (enrichRow jsNumerics ?raw ?row (u ''description'')) []
      = u ''Premium Quality product. Adidas black shoes''"
    by (simp add: enrichRow_description generateDescription_synthesized orElse_falsy
        truthy_def u_inj u_append u_append_left short)
      (simp add: orElse_def u_def)
  have rendered: "generatePlatformDescription (u ''flipkart'')
      [u ''description'' \<mapsto> u ''Premium Quality product. Adidas black shoes''] ?raw
      = u ''Premium Quality product. Adidas black shoes'' @ [nl, nl]
        @ u ''Specifications:'' @ [nl] @ u ''- Brand: '' @ [nl] @ u ''- Material: ''
        @ [nl] @ u ''- Quality Assured''"
    by (simp add: generatePlatformDescription_def u_inj orElse_None)
      (simp add: orElse_def u_def)
  show ?thesis
    using words described unfolding title brand color base tidied sample description rendered
    by (simp add: u_append)
qed

section \<open>The category vocabulary\<close>

lemma startsWith_includes: "startsWith s p \<Longrightarrow> strIncludes s p"
  by (cases s) simp_all

lemma strIncludes_Cons: "strIncludes s p \<Longrightarrow> strIncludes (c # s) p"
  by simp

lemma startsWith_tshirt:
  assumes "startsWith s (u ''t-shirt'')"
  shows "strIncludes s (u ''shirt'')"
proof -
  obtain rest where s: "s = 116 # 45 # rest" and rest: "startsWith rest (u ''shirt'')"
    using assms by (cases s; cases "tl s") (auto simp: u_def)
  from rest have "strIncludes rest (u ''shirt'')" by (rule startsWith_includes)
  then show ?thesis unfolding s by (intro strIncludes_Cons)
qed

lemma includes_tshirt: "strIncludes s (u ''t-shirt'') \<Longrightarrow> strIncludes s (u ''shirt'')"
proof (induction s)
  case Nil
  then show ?case by (simp add: u_def)
next
  case (Cons c cs)
  from Cons.prems have "startsWith (c # cs) (u ''t-shirt'') \<or> strIncludes cs (u ''t-shirt'')"
    by simp
  then show ?case
  proof
    assume "startsWith (c # cs) (u ''t-shirt'')"
    then show ?thesis by (rule startsWith_tshirt)
  next
    assume "strIncludes cs (u ''t-shirt'')"
    then have "strIncludes cs (u ''shirt'')" by (rule Cons.IH)
    then show ?thesis by simp
  qed
qed

lemma lower_shirt: "toLowerCase (u ''Shirt'') = u ''shirt''" "toLowerCase (u ''T-Shirt'') = u ''t-shirt''"
  by (simp_all add: toLowerCase_def lowerUnit_def u_def)

text \<open>
  The categories are searched in their listed order, \<open>Shirt\<close> before \<open>T-Shirt\<close>, and a
  line that holds \<open>t-shirt\<close> holds \<open>shirt\<close>. So the search never gives \<open>T-Shirt\<close>: a row
  without a category gets \<open>Shirt\<close> from the sample raw line.
\<close>

theorem category_never_tshirt:
  "(\<not> truthy (row (u ''category'')) \<longrightarrow> extractCategory rawData row \<noteq> u ''T-Shirt'')
   \<and> extractCategory sampleLine Map.empty = u ''Shirt''"
proof -
  have "firstIncluded l categories \<noteq> Some (u ''T-Shirt'')" for l
    using includes_tshirt [of l]
    by (auto simp: categories_def lower_shirt u_inj)
  then have "\<not> truthy (row (u ''category'')) \<longrightarrow> extractCategory rawData row \<noteq> u ''T-Shirt''"
    by (auto simp: extractCategory_def u_inj split: option.splits)
  moreover have "extractCategory sampleLine Map.empty = u ''Shirt''"
    by (simp add: sampleLine_def vocabulary_eval)
  ultimately show ?thesis by simp
qed

theorem category_never_tshirt_witness:
  "extractCategory (u ''Cotton T-SHIRT'') [u ''brand'' \<mapsto> u ''Zara''] \<noteq> u ''T-Shirt''
   \<and> extractCategory (u ''Cotton T-SHIRT'') [u ''brand'' \<mapsto> u ''Zara''] = u ''Shirt''"
proof -
  have "\<not> truthy ([u ''brand'' \<mapsto> u ''Zara''] (u ''category''))"
    by (simp add: truthy_def u_inj)
  moreover have "extractCategory (u ''Cotton T-SHIRT'') [u ''brand'' \<mapsto> u ''Zara''] = u ''Shirt''"
    by (simp add: vocabulary_eval)
  ultimately show ?thesis
    using category_never_tshirt [of "[u ''brand'' \<mapsto> u ''Zara'']" "u ''Cotton T-SHIRT''"]
    by simp
qed

end
